theory Spec2Isabelle
  imports Main "HOL-Library.Word"
begin

section \<open>JavaScript strings\<close>

text \<open>
  Two representations are used. Identifiers, URLs, attribute values and messages are
  \<open>string\<close>s, read as the UTF-8 bytes of a well-formed text: the code only compares
  them, tests prefixes and substrings, concatenates and percent-encodes them. Page text
  and transcripts are sequences of UTF-16 code units, because the code measures them
  (\<open>.length\<close>, \<open>.slice\<close>) and tests them for white space.
\<close>

type_synonym jstext = "16 word list"

text \<open>The class \<open>\s\<close> of a regular expression; \<open>String.prototype.trim\<close> strips the same set.\<close>

definition js_space :: "16 word \<Rightarrow> bool" where
  "js_space c \<longleftrightarrow>
     c \<in> {0x09, 0x0A, 0x0B, 0x0C, 0x0D, 0x20, 0xA0, 0x1680, 0x2028, 0x2029, 0x202F,
          0x205F, 0x3000, 0xFEFF}
     \<or> (0x2000 \<le> c \<and> c \<le> 0x200A)"

text \<open>
  \<open>s.replace(/\s+/g, ' ')\<close>: scanning from the left, every maximal match of \<open>\s+\<close> is
  replaced by one space and the scan goes on behind the match.
\<close>

function replace_ws :: "jstext \<Rightarrow> jstext" where
  "replace_ws [] = []"
| "replace_ws (c # cs) =
     (if js_space c then 0x20 # replace_ws (dropWhile js_space cs) else c # replace_ws cs)"
  by pat_completeness auto
termination
  by (relation "measure length") (auto simp: length_dropWhile_le less_Suc_eq_le)

definition trim :: "jstext \<Rightarrow> jstext" where
  "trim s = rev (dropWhile js_space (rev (dropWhile js_space s)))"

text \<open>\<open>s.slice(0, n)\<close> for a non-negative \<open>n\<close>.\<close>

definition slice0 :: "nat \<Rightarrow> 'a list \<Rightarrow> 'a list" where
  "slice0 n s = take n s"

text \<open>\<open>s.startsWith(p)\<close> and \<open>s.includes(p)\<close>.\<close>

definition startsWith :: "string \<Rightarrow> string \<Rightarrow> bool" where
  "startsWith s p \<longleftrightarrow> take (length p) s = p"

fun includes_str :: "string \<Rightarrow> string \<Rightarrow> bool" where
  "includes_str [] p = (p = [])"
| "includes_str (c # cs) p = (startsWith (c # cs) p \<or> includes_str cs p)"

text \<open>A string is falsy when it is missing or empty: the test \<open>!x\<close> of the handlers.\<close>

fun falsy :: "string option \<Rightarrow> bool" where
  "falsy None = True"
| "falsy (Some s) = (s = [])"

text \<open>
  \<open>encodeURIComponent\<close> on the UTF-8 bytes of a text: letters, digits and
  \<open>- _ . ! ~ * ' ( )\<close> stay, every other byte becomes \<open>%XX\<close>.
\<close>

definition unreserved :: "char \<Rightarrow> bool" where
  "unreserved c \<longleftrightarrow>
     c \<in> set (''ABCDEFGHIJKLMNOPQRSTUVWXYZ'' @ ''abcdefghijklmnopqrstuvwxyz''
               @ ''0123456789'' @ ''-_.!~*'()'')"

definition hex_digit :: "nat \<Rightarrow> char" where
  "hex_digit n = ''0123456789ABCDEF'' ! (n mod 16)"

definition percent :: "char \<Rightarrow> string" where
  "percent c = (let n = (of_char c :: nat) in [CHR ''%'', hex_digit (n div 16), hex_digit n])"

definition encodeURIComponent :: "string \<Rightarrow> string" where
  "encodeURIComponent s = concat (map (\<lambda>c. if unreserved c then [c] else percent c) s)"

text \<open>The decimal text of a number, as a template literal prints it.\<close>

fun show_nat :: "nat \<Rightarrow> string" where
  "show_nat n =
     (if n < 10 then [''0123456789'' ! n]
      else show_nat (n div 10) @ [''0123456789'' ! (n mod 10)])"

declare show_nat.simps [simp del]

section \<open>Messages and results\<close>

text \<open>
  The entities the handlers read. \<open>form_fields\<close> is an object; it is kept as the list
  that \<open>Object.entries\<close> yields, in that order.
\<close>

record Entities =
  query :: "string option"
  website :: "string option"
  form_fields :: "(string \<times> string) list option"
  from_entity :: "string option"
  to_entity :: "string option"
  date_entity :: "string option"

record IntentPayload =
  intent :: string
  entities :: Entities
  payload_message :: string

record Command =
  cmd_type :: string
  cmd_payload :: IntentPayload

record Result =
  success :: bool
  message :: "string option"
  error :: "string option"
  summary :: "jstext option"
  tabId :: "nat option"

definition ok_result :: "string \<Rightarrow> Result" where
  "ok_result m = \<lparr>success = True, message = Some m, error = None, summary = None, tabId = None\<rparr>"

definition fail_result :: "string \<Rightarrow> Result" where
  "fail_result e = \<lparr>success = False, message = None, error = Some e, summary = None, tabId = None\<rparr>"

text \<open>
  What a handler can throw: an \<open>Error\<close> of its own, a \<open>TypeError\<close> of the engine, or a
  \<open>DOMException\<close> of the page (its name and its message). The listener reads the
  message only.
\<close>

datatype js_error = Error string | TypeError string | DOMException string string

fun error_message :: "js_error \<Rightarrow> string" where
  "error_message (Error m) = m"
| "error_message (TypeError m) = m"
| "error_message (DOMException n m) = m"

section \<open>The page a content script runs in\<close>

text \<open>
  The document is the list of its elements in document order; an element is named by its
  position. \<open>tag\<close> is its local name (lower case in an HTML document), \<open>attrs\<close> its
  attributes (the content attribute \<open>value\<close> is not kept there: no selector of the
  script reads it), \<open>val\<close> what its \<open>value\<close> property reads, and \<open>form\<close> the form it
  belongs to, if any. What a handler does to the page is recorded in \<open>trace\<close>, in order;
  a suspension \<open>wait(ms)\<close> is recorded too.

  Three things are not the extension's and are taken as given with the page.
  \<open>sanitize e v\<close> is what the \<open>value\<close> of \<open>e\<close> reads after the string \<open>v\<close> was assigned
  to it (the value sanitization of its type). \<open>raw_query s es\<close> is the answer of
  \<open>document.querySelector\<close> to a selector text \<open>s\<close> that is not parsed here, on the
  document \<open>es\<close>: an exception or an element, if any. \<open>script t es\<close> is what the page's
  own scripts make of the document \<open>es\<close> when they get to run: on a focus, an event, a
  click or during a suspension, \<open>t\<close> being the trace up to and including that action.
  The content script lives in a world of its own, so the page's scripts reach it
  through the document only.
\<close>

record element =
  tag :: string
  attrs :: "string \<rightharpoonup> string"
  val :: string
  form :: "nat option"

datatype dom_event = InputEvent | ChangeEvent | KeydownEnter

datatype action =
    Focus nat
  | SetValue nat string
  | Dispatch nat dom_event
  | Submit nat
  | Click nat
  | Navigate string
  | Wait nat

record page =
  hostname :: string
  elements :: "element list"
  innerText :: jstext
  sanitize :: "element \<Rightarrow> string \<Rightarrow> string"
  raw_query :: "string \<Rightarrow> element list \<Rightarrow> js_error + nat option"
  script :: "action list \<Rightarrow> element list \<Rightarrow> element list"
  trace :: "action list"

text \<open>
  A selector whose text is fixed, or whose interpolated name is plain, is kept as its
  parse: a list of alternatives \<open>tag[attr=value]\<close> or \<open>tag[attr*=value]\<close>. \<open>*=\<close> with an
  empty value matches nothing. The values of \<open>type\<close> are compared without regard to
  ASCII case, as HTML documents do.
\<close>

datatype attr_match = Equals | Contains

datatype selector = Sel string string attr_match string

definition ascii_lower :: "char \<Rightarrow> char" where
  "ascii_lower c =
     (case map_of (zip ''ABCDEFGHIJKLMNOPQRSTUVWXYZ'' ''abcdefghijklmnopqrstuvwxyz'') c of
        None \<Rightarrow> c
      | Some l \<Rightarrow> l)"

definition attr_norm :: "string \<Rightarrow> string \<Rightarrow> string" where
  "attr_norm a v = (if a = ''type'' then map ascii_lower v else v)"

fun matches :: "element \<Rightarrow> selector \<Rightarrow> bool" where
  "matches e (Sel t a Equals v) =
     (tag e = t \<and> (case attrs e a of None \<Rightarrow> False | Some x \<Rightarrow> attr_norm a x = attr_norm a v))"
| "matches e (Sel t a Contains v) =
     (tag e = t \<and> (case attrs e a of None \<Rightarrow> False
        | Some x \<Rightarrow> v \<noteq> [] \<and> includes_str (attr_norm a x) (attr_norm a v)))"

fun find_first :: "('a \<Rightarrow> bool) \<Rightarrow> 'a list \<Rightarrow> nat option" where
  "find_first P [] = None"
| "find_first P (x # xs) = (if P x then Some 0 else map_option Suc (find_first P xs))"

definition querySelector :: "page \<Rightarrow> selector list \<Rightarrow> nat option" where
  "querySelector p sels = find_first (\<lambda>e. list_ex (matches e) sels) (elements p)"

text \<open>
  \<open>act\<close> records an action that no script of the page gets to see before the handler
  goes on; \<open>fire\<close> records one that lets the page's scripts run.
\<close>

definition act :: "action \<Rightarrow> page \<Rightarrow> page" where
  "act a p = p\<lparr>trace := trace p @ [a]\<rparr>"

definition fire :: "action \<Rightarrow> page \<Rightarrow> page" where
  "fire a p =
     (let t = trace p @ [a] in p\<lparr>elements := script p t (elements p), trace := t\<rparr>)"

definition wait :: "nat \<Rightarrow> page \<Rightarrow> page" where
  "wait ms p = fire (Wait ms) p"

definition focus :: "nat \<Rightarrow> page \<Rightarrow> page" where
  "focus i p = fire (Focus i) p"

definition dispatchEvent :: "nat \<Rightarrow> dom_event \<Rightarrow> page \<Rightarrow> page" where
  "dispatchEvent i ev p = fire (Dispatch i ev) p"

definition click :: "nat \<Rightarrow> page \<Rightarrow> page" where
  "click i p = fire (Click i) p"

text \<open>
  \<open>el.value = v\<close>. An \<open>input\<close> of type \<open>file\<close> accepts the empty string only: any other
  string makes the assignment throw an \<open>InvalidStateError\<close>. Every other input, and a
  \<open>textarea\<close>, takes the string and then reads what its sanitization makes of it.
\<close>

definition is_file_input :: "element \<Rightarrow> bool" where
  "is_file_input e \<longleftrightarrow>
     tag e = ''input''
     \<and> (case attrs e ''type'' of None \<Rightarrow> False | Some t \<Rightarrow> map ascii_lower t = ''file'')"

definition file_value_error :: js_error where
  "file_value_error =
     DOMException ''InvalidStateError''
       (''Failed to set the 'value' property on 'HTMLInputElement': This input element ''
        @ ''accepts a filename, which may only be programmatically set to the empty string.'')"

definition set_value :: "nat \<Rightarrow> string \<Rightarrow> page \<Rightarrow> js_error + page" where
  "set_value i v p =
     (let e = elements p ! i in
      if is_file_input e \<and> v \<noteq> [] then Inl file_value_error
      else Inr (act (SetValue i v)
                  (p\<lparr>elements := (elements p)[i := e\<lparr>val := sanitize p e v\<rparr>]\<rparr>)))"

text \<open>
  \<open>x.form.submit()\<close>. A control of the form whose \<open>name\<close> or \<open>id\<close> is \<open>submit\<close> (an image
  button apart) is what \<open>form.submit\<close> then reads, and calling it throws a \<open>TypeError\<close>;
  \<open>expr\<close> is the text of the callee, which the message quotes.
\<close>

definition is_image_input :: "element \<Rightarrow> bool" where
  "is_image_input e \<longleftrightarrow>
     tag e = ''input''
     \<and> (case attrs e ''type'' of None \<Rightarrow> False | Some t \<Rightarrow> map ascii_lower t = ''image'')"

definition submit_shadowed :: "page \<Rightarrow> nat \<Rightarrow> bool" where
  "submit_shadowed p f \<longleftrightarrow>
     list_ex (\<lambda>e. form e = Some f \<and> \<not> is_image_input e
                 \<and> (attrs e ''name'' = Some ''submit'' \<or> attrs e ''id'' = Some ''submit''))
       (elements p)"

definition form_submit :: "string \<Rightarrow> nat \<Rightarrow> page \<Rightarrow> js_error + page" where
  "form_submit expr f p =
     (if submit_shadowed p f then Inl (TypeError (expr @ '' is not a function''))
      else Inr (act (Submit f) p))"

section \<open>The content script\<close>

subsection \<open>SEARCH\<close>

definition handleGoogleSearch :: "IntentPayload \<Rightarrow> page \<Rightarrow> (js_error + Result) \<times> page" where
  "handleGoogleSearch data p =
     (case query (entities data) of
        None \<Rightarrow> (Inl (Error ''No search query provided''), p)
      | Some q \<Rightarrow>
          if q = [] then (Inl (Error ''No search query provided''), p)
          else if \<not> includes_str (hostname p) ''google'' then
            (Inr (ok_result ''Redirecting to Google''),
             act (Navigate (''https://www.google.com/search?q='' @ encodeURIComponent q)) p)
          else
            let p1 = wait 1000 p in
            (case querySelector p1 [Sel ''input'' ''name'' Equals ''q''] of
               None \<Rightarrow> (Inl (Error ''Google search box not found''), p1)
             | Some i \<Rightarrow>
                 (case set_value i q p1 of
                    Inl err \<Rightarrow> (Inl err, p1)
                  | Inr p2 \<Rightarrow>
                      let p3 = dispatchEvent i InputEvent p2;
                          p4 = wait 300 p3
                      in (case form (elements p4 ! i) of
                            None \<Rightarrow>
                              (Inl (TypeError
                                 ''Cannot read properties of null (reading 'submit')''), p4)
                          | Some f \<Rightarrow>
                              (case form_submit ''input.form.submit'' f p4 of
                                 Inl err \<Rightarrow> (Inl err, p4)
                               | Inr p5 \<Rightarrow> (Inr (ok_result ''Search executed''), p5))))))"

subsection \<open>WEBSITE_SEARCH\<close>

definition search_selector :: "selector list" where
  "search_selector =
     [Sel ''input'' ''type'' Equals ''search'',
      Sel ''input'' ''name'' Contains ''search'',
      Sel ''input'' ''placeholder'' Contains ''search'']"

definition handleWebsiteSearch :: "IntentPayload \<Rightarrow> page \<Rightarrow> (js_error + Result) \<times> page" where
  "handleWebsiteSearch data p =
     (case query (entities data) of
        None \<Rightarrow> (Inl (Error ''No query provided''), p)
      | Some q \<Rightarrow>
          if q = [] then (Inl (Error ''No query provided''), p)
          else
            (case querySelector p search_selector of
               None \<Rightarrow> (Inl (Error ''No search box found on website''), p)
             | Some i \<Rightarrow>
                 let p1 = focus i p in
                 (case set_value i q p1 of
                    Inl err \<Rightarrow> (Inl err, p1)
                  | Inr p2 \<Rightarrow>
                      let p3 = dispatchEvent i InputEvent p2;
                          p4 = dispatchEvent i ChangeEvent p3;
                          p5 = wait 300 p4
                      in (case form (elements p5 ! i) of
                            Some f \<Rightarrow>
                              (case form_submit ''searchInput.form.submit'' f p5 of
                                 Inl err \<Rightarrow> (Inl err, p5)
                               | Inr p6 \<Rightarrow> (Inr (ok_result ''Website search completed''), p6))
                          | None \<Rightarrow>
                              (Inr (ok_result ''Website search completed''),
                               dispatchEvent i KeydownEnter p5)))))"

subsection \<open>FORM_FILL\<close>

text \<open>
  The selector of an entry is a text with the key put inside three quoted strings. When
  the key has none of the characters that end or escape a CSS string or are changed on
  the way into one (the double quote, the backslash, a line break, a form feed, NUL),
  each string is the key itself and the text parses to \<open>field_selector\<close>. For any other
  key the answer is the browser's: \<open>raw_query\<close>, an answer outside the document
  counting as no element.
\<close>

definition css_plain :: "string \<Rightarrow> bool" where
  "css_plain key \<longleftrightarrow>
     list_all (\<lambda>c. c \<notin> set [CHR 0x22, CHR 0x5C, CHR 0x0A, CHR 0x0D, CHR 0x0C, CHR 0x00]) key"

definition field_selector :: "string \<Rightarrow> selector list" where
  "field_selector key =
     [Sel ''input'' ''name'' Contains key,
      Sel ''input'' ''id'' Contains key,
      Sel ''textarea'' ''name'' Contains key]"

definition field_selector_text :: "string \<Rightarrow> string" where
  "field_selector_text key =
     ''input[name*='' @ [CHR 0x22] @ key @ [CHR 0x22] @ ''], input[id*='' @ [CHR 0x22] @ key
     @ [CHR 0x22] @ ''], textarea[name*='' @ [CHR 0x22] @ key @ [CHR 0x22] @ '']''"

definition query_field :: "page \<Rightarrow> string \<Rightarrow> js_error + nat option" where
  "query_field p key =
     (if css_plain key then Inr (querySelector p (field_selector key))
      else
        (case raw_query p (field_selector_text key) (elements p) of
           Inl err \<Rightarrow> Inl err
         | Inr None \<Rightarrow> Inr None
         | Inr (Some i) \<Rightarrow> if i < length (elements p) then Inr (Some i) else Inr None))"

text \<open>
  The body of the loop over \<open>Object.entries(fields)\<close>, with the counter \<open>filled\<close>. An
  exception ends the loop; what was done before stays done.
\<close>

fun fill_entries ::
  "(string \<times> string) list \<Rightarrow> nat \<Rightarrow> page \<Rightarrow> (js_error + nat) \<times> page" where
  "fill_entries [] filled p = (Inr filled, p)"
| "fill_entries ((key, v) # rest) filled p =
     (case query_field p key of
        Inl err \<Rightarrow> (Inl err, p)
      | Inr None \<Rightarrow> fill_entries rest filled p
      | Inr (Some i) \<Rightarrow>
          let p1 = focus i p in
          (case set_value i v p1 of
             Inl err \<Rightarrow> (Inl err, p1)
           | Inr p2 \<Rightarrow>
               let p3 = dispatchEvent i InputEvent p2;
                   p4 = dispatchEvent i ChangeEvent p3
               in fill_entries rest (filled + 1) p4))"

definition handleFormFill :: "IntentPayload \<Rightarrow> page \<Rightarrow> (js_error + Result) \<times> page" where
  "handleFormFill data p =
     (case form_fields (entities data) of
        None \<Rightarrow> (Inl (Error ''No form fields provided''), p)
      | Some fields' \<Rightarrow>
          if length fields' = 0 then (Inl (Error ''No form fields provided''), p)
          else
            (case fill_entries fields' 0 p of
               (Inl err, p') \<Rightarrow> (Inl err, p')
             | (Inr filled, p') \<Rightarrow>
                 (Inr (ok_result (''Filled '' @ show_nat filled @ '' fields'')), p')))"

subsection \<open>BOOK_TICKET\<close>

definition booking_selector :: "string \<Rightarrow> selector list" where
  "booking_selector name = [Sel ''input'' ''name'' Contains name, Sel ''input'' ''id'' Contains name]"

text \<open>\<open>autoFill\<close> answers the exception it ended with, if any.\<close>

definition autoFill :: "string \<Rightarrow> string option \<Rightarrow> page \<Rightarrow> js_error option \<times> page" where
  "autoFill name v p =
     (case v of
        None \<Rightarrow> (None, p)
      | Some x \<Rightarrow>
          if x = [] then (None, p)
          else
            (case querySelector p (booking_selector name) of
               None \<Rightarrow> (None, p)
             | Some i \<Rightarrow>
                 let p1 = focus i p in
                 (case set_value i x p1 of
                    Inl err \<Rightarrow> (Some err, p1)
                  | Inr p2 \<Rightarrow>
                      let p3 = dispatchEvent i InputEvent p2;
                          p4 = dispatchEvent i ChangeEvent p3
                      in (None, wait 200 p4))))"

definition submit_selector :: "selector list" where
  "submit_selector =
     [Sel ''button'' ''type'' Equals ''submit'', Sel ''input'' ''type'' Equals ''submit'']"

definition handleBooking :: "IntentPayload \<Rightarrow> page \<Rightarrow> (js_error + Result) \<times> page" where
  "handleBooking data p =
     (case autoFill ''from'' (from_entity (entities data)) p of
        (Some err, p1) \<Rightarrow> (Inl err, p1)
      | (None, p1) \<Rightarrow>
          (case autoFill ''to'' (to_entity (entities data)) p1 of
             (Some err, p2) \<Rightarrow> (Inl err, p2)
           | (None, p2) \<Rightarrow>
               (case autoFill ''date'' (date_entity (entities data)) p2 of
                  (Some err, p3) \<Rightarrow> (Inl err, p3)
                | (None, p3) \<Rightarrow>
                    let p4 = (case querySelector p3 submit_selector of
                                Some i \<Rightarrow> click i p3
                              | None \<Rightarrow> p3)
                    in (Inr (ok_result ''Booking form processed''), p4))))"

subsection \<open>SUMMARIZE\<close>

definition handleSummarize :: "page \<Rightarrow> (js_error + Result) \<times> page" where
  "handleSummarize p =
     (let text = innerText p;
          clean = slice0 5000 (trim (replace_ws text))
      in (Inr \<lparr>success = True, message = Some ''Page content extracted'', error = None,
               summary = Some clean, tabId = None\<rparr>, p))"

subsection \<open>The message listener\<close>

text \<open>
  The listener runs the handler of the command's type inside \<open>try\<close>; a thrown error
  becomes the reply \<open>{success: false, error: error.message}\<close>. What the handler did to
  the page before it threw stays done.
\<close>

definition run_handler :: "Command \<Rightarrow> page \<Rightarrow> (js_error + Result) \<times> page" where
  "run_handler msg p =
     (if cmd_type msg = ''SEARCH'' then handleGoogleSearch (cmd_payload msg) p
      else if cmd_type msg = ''WEBSITE_SEARCH'' then handleWebsiteSearch (cmd_payload msg) p
      else if cmd_type msg = ''FORM_FILL'' then handleFormFill (cmd_payload msg) p
      else if cmd_type msg = ''BOOK_TICKET'' then handleBooking (cmd_payload msg) p
      else if cmd_type msg = ''SUMMARIZE'' then handleSummarize p
      else (Inr (fail_result ''Unknown command''), p))"

definition onMessage :: "Command \<Rightarrow> page \<Rightarrow> Result \<times> page" where
  "onMessage msg p =
     (case run_handler msg p of
        (Inr result, p') \<Rightarrow> (result, p')
      | (Inl err, p') \<Rightarrow> (fail_result (error_message err), p'))"

section \<open>The browser, as the service worker sees it\<close>

text \<open>
  A promise is settled with a value, settled with an error (its message), or never
  settled. Calls of the \<open>chrome\<close> API report failure through \<open>chrome.runtime.lastError\<close>;
  whether a call fails is not up to the extension, so the browser record says it:
  \<open>active_query_error\<close>, \<open>all_query_error\<close> and \<open>create_error\<close> hold the error the
  respective call would set. \<open>updates\<close> are the \<open>tabs.onUpdated\<close> events
  \<open>(tabId, info.status)\<close> that will fire, and \<open>load\<close> gives the page with its content
  script that a tab shows once a URL has loaded there, if any. \<open>pages\<close> holds the page of
  every tab in which the content script is listening, \<open>sent\<close> the messages handed to
  \<open>chrome.tabs.sendMessage\<close>, and \<open>console\<close> what was printed.
\<close>

datatype 'a promise = Resolved 'a | Rejected string | Pending

datatype console_entry = ConsoleLog string | ConsoleWarn string | ConsoleError string

record tab =
  tab_id :: nat
  url :: string
  active :: bool
  currentWindow :: bool

record browser =
  tabs :: "tab list"
  next_tab_id :: nat
  active_query_error :: "string option"
  all_query_error :: "string option"
  create_error :: "string option"
  updates :: "(nat \<times> string) list"
  load :: "string \<Rightarrow> page option"
  pages :: "nat \<rightharpoonup> page"
  sent :: "(nat \<times> Command) list"
  console :: "console_entry list"

definition console_log :: "string \<Rightarrow> browser \<Rightarrow> browser" where
  "console_log s b = b\<lparr>console := console b @ [ConsoleLog s]\<rparr>"

definition console_warn :: "string \<Rightarrow> browser \<Rightarrow> browser" where
  "console_warn s b = b\<lparr>console := console b @ [ConsoleWarn s]\<rparr>"

definition console_error :: "string \<Rightarrow> browser \<Rightarrow> browser" where
  "console_error s b = b\<lparr>console := console b @ [ConsoleError s]\<rparr>"

subsection \<open>Tab utilities\<close>

definition getActiveTab :: "browser \<Rightarrow> string + tab" where
  "getActiveTab b =
     (case active_query_error b of
        Some e \<Rightarrow> Inl e
      | None \<Rightarrow>
          (case filter (\<lambda>t. active t \<and> currentWindow t) (tabs b) of
             [] \<Rightarrow> Inl ''No active tab''
           | t # _ \<Rightarrow> Inr t))"

definition getAnyValidTab :: "browser \<Rightarrow> string + tab" where
  "getAnyValidTab b =
     (case all_query_error b of
        Some e \<Rightarrow> Inl e
      | None \<Rightarrow>
          if length (tabs b) = 0 then Inl ''No tabs available''
          else
            (case List.find (\<lambda>t. \<not> startsWith (url t) ''chrome://'') (tabs b) of
               None \<Rightarrow> Inl ''No usable tab''
             | Some valid \<Rightarrow> Inr valid))"

text \<open>
  \<open>chrome.tabs.create\<close> opens the tab in the current window and makes it the active one
  there. The promise of \<open>createNewTab\<close> is settled by the first \<open>onUpdated\<close> event that
  carries the new tab's id and the status \<open>complete\<close>; without such an event it stays
  pending.
\<close>

definition createNewTab :: "string \<Rightarrow> browser \<Rightarrow> tab promise \<times> browser" where
  "createNewTab u b =
     (case create_error b of
        Some e \<Rightarrow> (Rejected e, b)
      | None \<Rightarrow>
          let t = \<lparr>tab_id = next_tab_id b, url = u, active = True, currentWindow = True\<rparr>;
              others = map (\<lambda>x. if currentWindow x then x\<lparr>active := False\<rparr> else x) (tabs b);
              b1 = b\<lparr>tabs := others @ [t], next_tab_id := Suc (next_tab_id b)\<rparr>
          in if list_ex (\<lambda>(i, status). i = tab_id t \<and> status = ''complete'') (updates b)
             then (Resolved t, b1\<lparr>pages := (pages b1)(tab_id t := load b1 u)\<rparr>)
             else (Pending, b1))"

definition default_url :: string where
  "default_url = ''https://www.google.com''"

definition getUsableTab :: "bool \<Rightarrow> browser \<Rightarrow> tab promise \<times> browser" where
  "getUsableTab createIfMissing b =
     (case getActiveTab b of
        Inr t \<Rightarrow> (Resolved t, b)
      | Inl _ \<Rightarrow>
          (case getAnyValidTab b of
             Inr t \<Rightarrow> (Resolved t, b)
           | Inl _ \<Rightarrow>
               if createIfMissing
               then createNewTab default_url (console_log ''[Router] Creating new tab...'' b)
               else (Rejected ''No usable tab found'', b)))"

subsection \<open>Message sender\<close>

text \<open>
  The promise around \<open>chrome.tabs.sendMessage\<close> is returned without \<open>await\<close>, so its
  rejection is not caught by the \<open>try\<close> of \<open>sendToContent\<close>: only a failure of
  \<open>getUsableTab\<close> becomes a result \<open>{success: false, error}\<close>. A tab without a listening
  content script makes the browser set \<open>lastError\<close>.
\<close>

definition no_receiver :: string where
  "no_receiver = ''Could not establish connection. Receiving end does not exist.''"

definition sendToContent :: "Command \<Rightarrow> bool \<Rightarrow> browser \<Rightarrow> Result promise \<times> browser" where
  "sendToContent payload allowCreate b =
     (case getUsableTab allowCreate b of
        (Rejected e, b1) \<Rightarrow>
          (Resolved (fail_result e), console_error (''[Router] Send failed: '' @ e) b1)
      | (Pending, b1) \<Rightarrow> (Pending, b1)
      | (Resolved t, b1) \<Rightarrow>
          let b2 = console_log (''[Router] Using tab: '' @ show_nat (tab_id t)) b1;
              b3 = b2\<lparr>sent := sent b2 @ [(tab_id t, payload)]\<rparr>
          in (case pages b3 (tab_id t) of
                None \<Rightarrow> (Rejected no_receiver, b3)
              | Some pg \<Rightarrow>
                  let (response, pg') = onMessage payload pg
                  in (Resolved response, b3\<lparr>pages := (pages b3)(tab_id t \<mapsto> pg')\<rparr>)))"

subsection \<open>Intent handlers\<close>

definition handleSearch :: "IntentPayload \<Rightarrow> browser \<Rightarrow> Result promise \<times> browser" where
  "handleSearch data b =
     sendToContent \<lparr>cmd_type = ''SEARCH'', cmd_payload = data\<rparr> True
       (console_log ''[Router] SEARCH'' b)"

definition handleWebsiteSearch_router ::
  "IntentPayload \<Rightarrow> browser \<Rightarrow> Result promise \<times> browser" where
  "handleWebsiteSearch_router data b =
     sendToContent \<lparr>cmd_type = ''WEBSITE_SEARCH'', cmd_payload = data\<rparr> True
       (console_log ''[Router] WEBSITE SEARCH'' b)"

definition handleFormFill_router ::
  "IntentPayload \<Rightarrow> browser \<Rightarrow> Result promise \<times> browser" where
  "handleFormFill_router data b =
     sendToContent \<lparr>cmd_type = ''FORM_FILL'', cmd_payload = data\<rparr> True
       (console_log ''[Router] FORM FILL'' b)"

definition handleBooking_router ::
  "IntentPayload \<Rightarrow> browser \<Rightarrow> Result promise \<times> browser" where
  "handleBooking_router data b =
     sendToContent \<lparr>cmd_type = ''BOOK_TICKET'', cmd_payload = data\<rparr> True
       (console_log ''[Router] BOOK TICKET'' b)"

definition handleOpenSite :: "IntentPayload \<Rightarrow> browser \<Rightarrow> Result promise \<times> browser" where
  "handleOpenSite data b =
     (let b1 = console_log ''[Router] OPEN SITE'' b in
      case website (entities data) of
        None \<Rightarrow> (Resolved (fail_result ''No website given''), b1)
      | Some w \<Rightarrow>
          if w = [] then (Resolved (fail_result ''No website given''), b1)
          else
            let u = (if \<not> startsWith w ''http'' then ''https://'' @ w else w)
            in (case createNewTab u b1 of
                  (Resolved t, b2) \<Rightarrow>
                    (Resolved \<lparr>success = True, message = Some ''Website opened'', error = None,
                               summary = None, tabId = Some (tab_id t)\<rparr>, b2)
                | (Rejected e, b2) \<Rightarrow> (Rejected e, b2)
                | (Pending, b2) \<Rightarrow> (Pending, b2)))"

definition handleQnA :: "IntentPayload \<Rightarrow> browser \<Rightarrow> Result promise \<times> browser" where
  "handleQnA data b =
     (Resolved (ok_result (payload_message data)), console_log ''[Router] QNA'' b)"

definition handleSummarize_router ::
  "IntentPayload \<Rightarrow> browser \<Rightarrow> Result promise \<times> browser" where
  "handleSummarize_router data b =
     sendToContent \<lparr>cmd_type = ''SUMMARIZE'', cmd_payload = data\<rparr> True
       (console_log ''[Router] SUMMARIZE'' b)"

definition handleOther :: "IntentPayload \<Rightarrow> browser \<Rightarrow> Result promise \<times> browser" where
  "handleOther data b =
     (Resolved (ok_result (payload_message data)), console_log ''[Router] OTHER'' b)"

subsection \<open>Router\<close>

definition routeIntent :: "IntentPayload \<Rightarrow> browser \<Rightarrow> Result promise \<times> browser" where
  "routeIntent intentData b =
     (let b0 = console_log (''[Router] Routing intent: '' @ intent intentData) b in
      if intent intentData = ''search'' then handleSearch intentData b0
      else if intent intentData = ''website_search'' then handleWebsiteSearch_router intentData b0
      else if intent intentData = ''form_fill'' then handleFormFill_router intentData b0
      else if intent intentData = ''book_ticket'' then handleBooking_router intentData b0
      else if intent intentData = ''open_site'' then handleOpenSite intentData b0
      else if intent intentData = ''qna'' then handleQnA intentData b0
      else if intent intentData = ''summarize'' then handleSummarize_router intentData b0
      else if intent intentData = ''other'' then handleOther intentData b0
      else (Resolved (fail_result ''Unknown intent''),
            console_warn (''[Router] Unknown intent: '' @ intent intentData) b0))"

section \<open>The popup: UI controller\<close>

text \<open>
  The controller's \<open>state\<close> object, the parts of the popup document it writes, and what it
  sends out: the \<open>fetch\<close> calls, the utterances handed to speech synthesis and the
  messages handed to \<open>chrome.runtime.sendMessage\<close>. An element of the popup that
  \<open>getElementById\<close> or \<open>querySelector\<close> did not find is \<open>None\<close>; the controller tests for
  that before each write.
\<close>

record ui_state =
  isListening :: bool
  currentTranscript :: jstext
  finalTranscript :: jstext
  currentResponse :: string
  hasError :: bool
  sessionStartTime :: "nat option"

datatype transcript_view = TranscriptPlaceholder | TranscriptShown jstext bool

datatype response_view = ResponsePlaceholder | ResponseShown string | ErrorShown string bool

record request =
  req_url :: string
  req_method :: string
  req_headers :: "(string \<times> string) list"
  body_text :: jstext

record popup =
  state :: ui_state
  statusText :: "string option"
  statusDot :: "string list option"
  micLabel :: "string option"
  transcriptArea :: "transcript_view option"
  responseArea :: "response_view option"
  fetches :: "request list"
  utterances :: "string list"
  runtime_messages :: "IntentPayload list"

text \<open>The payload of a transcript event; \<open>confidence\<close> and \<open>timestamp\<close> are never read.\<close>

record transcript_data =
  transcript :: jstext
  isFinal :: bool

definition BACKEND_BASE_URL :: string where
  "BACKEND_BASE_URL = ''http://localhost:3000/api''"

definition statusMessages :: "string \<rightharpoonup> string" where
  "statusMessages =
     [''ready'' \<mapsto> ''Ready'', ''listening'' \<mapsto> ''Listening...'',
      ''processing'' \<mapsto> ''Processing...'', ''responding'' \<mapsto> ''Responding...'',
      ''error'' \<mapsto> ''Error occurred'']"

definition updateStatusText :: "string \<Rightarrow> popup \<Rightarrow> popup" where
  "updateStatusText text p =
     (case statusText p of None \<Rightarrow> p | Some _ \<Rightarrow> p\<lparr>statusText := Some text\<rparr>)"

definition updateStatusDot :: "string \<Rightarrow> popup \<Rightarrow> popup" where
  "updateStatusDot stateName p =
     (case statusDot p of
        None \<Rightarrow> p
      | Some classes \<Rightarrow>
          let removed = filter (\<lambda>c. c \<notin> set [''ready'', ''listening'', ''processing'', ''error''])
                          classes
          in p\<lparr>statusDot := Some (if stateName \<in> set removed then removed
                                    else removed @ [stateName])\<rparr>)"

definition micLabels :: "string \<rightharpoonup> string" where
  "micLabels =
     [''ready'' \<mapsto> ''Click to Start'', ''listening'' \<mapsto> ''Listening...'',
      ''processing'' \<mapsto> ''Processing...'', ''error'' \<mapsto> ''Try Again'']"

definition updateMicLabel :: "string \<Rightarrow> popup \<Rightarrow> popup" where
  "updateMicLabel stateName p =
     (case micLabel p of
        None \<Rightarrow> p
      | Some _ \<Rightarrow>
          p\<lparr>micLabel := Some (case micLabels stateName of
                                Some l \<Rightarrow> l | None \<Rightarrow> ''Click to Start'')\<rparr>)"

definition setUIState :: "string \<Rightarrow> popup \<Rightarrow> popup" where
  "setUIState stateName p =
     (let statusMessage = (case statusMessages stateName of Some m \<Rightarrow> m | None \<Rightarrow> stateName)
      in updateMicLabel stateName (updateStatusDot stateName (updateStatusText statusMessage p)))"

definition displayTranscript :: "jstext \<Rightarrow> bool \<Rightarrow> popup \<Rightarrow> popup" where
  "displayTranscript text final p =
     (case transcriptArea p of
        None \<Rightarrow> p
      | Some _ \<Rightarrow> p\<lparr>transcriptArea := Some (TranscriptShown text final)\<rparr>)"

definition displayResponse :: "string \<Rightarrow> popup \<Rightarrow> popup" where
  "displayResponse text p =
     (case responseArea p of
        None \<Rightarrow> p
      | Some _ \<Rightarrow>
          p\<lparr>responseArea := Some (ResponseShown text),
            state := (state p)\<lparr>currentResponse := text\<rparr>\<rparr>)"

definition showError :: "string \<Rightarrow> string \<Rightarrow> bool \<Rightarrow> popup \<Rightarrow> popup" where
  "showError type msg fatal p =
     (let p1 = updateStatusText (''Error: '' @ type) p
      in case responseArea p1 of
           None \<Rightarrow> p1
         | Some _ \<Rightarrow> p1\<lparr>responseArea := Some (ErrorShown msg fatal)\<rparr>)"

definition speakText :: "string \<Rightarrow> popup \<Rightarrow> popup" where
  "speakText text p = (if text = [] then p else p\<lparr>utterances := utterances p @ [text]\<rparr>)"

definition sendToRouter :: "IntentPayload \<Rightarrow> popup \<Rightarrow> popup" where
  "sendToRouter data p = p\<lparr>runtime_messages := runtime_messages p @ [data]\<rparr>"

text \<open>
  \<open>processTranscript\<close> is an \<open>async\<close> function that nobody awaits. Its part up to the
  first \<open>await\<close> runs inside the call: the guard, the status and the call of \<open>fetch\<close>.
  The rest runs when the backend has answered, and is \<open>processTranscript_resume\<close>: the
  answer is a network failure, or a response with its \<open>ok\<close> flag and its body parsed as
  JSON (\<open>None\<close> when the body does not parse).
\<close>

definition processTranscript :: "jstext \<Rightarrow> popup \<Rightarrow> popup" where
  "processTranscript t p =
     (if t = [] \<or> length (trim t) = 0 then p
      else
        let p1 = setUIState ''processing'' p
        in p1\<lparr>fetches := fetches p1 @
                 [\<lparr>req_url = BACKEND_BASE_URL @ ''/process'', req_method = ''POST'',
                   req_headers = [(''Content-Type'', ''application/json'')],
                   body_text = t\<rparr>]\<rparr>)"

datatype fetch_outcome = NetworkFailure | HttpResponse bool "IntentPayload option"

definition processing_failed :: "popup \<Rightarrow> popup" where
  "processing_failed p =
     setUIState ''error'' (showError ''processing-failed'' ''Failed to process your message'' False p)"

definition processTranscript_resume :: "fetch_outcome \<Rightarrow> popup \<Rightarrow> popup" where
  "processTranscript_resume outcome p =
     (case outcome of
        NetworkFailure \<Rightarrow> processing_failed p
      | HttpResponse ok body \<Rightarrow>
          if \<not> ok then processing_failed p
          else
            (case body of
               None \<Rightarrow> processing_failed p
             | Some result \<Rightarrow>
                 let p1 = setUIState ''responding'' p;
                     p2 = displayResponse (if payload_message result = [] then ''Done''
                                           else payload_message result) p1;
                     p3 = speakText (payload_message result) p2;
                     p4 = sendToRouter result p3
                 in setUIState ''ready'' p4))"

definition handleTranscript :: "transcript_data \<Rightarrow> popup \<Rightarrow> popup" where
  "handleTranscript data p =
     (if isFinal data then
        let p1 = p\<lparr>state := (state p)\<lparr>finalTranscript := transcript data,
                                        currentTranscript := []\<rparr>\<rparr>;
            p2 = displayTranscript (transcript data) True p1
        in processTranscript (transcript data) p2
      else
        let p1 = p\<lparr>state := (state p)\<lparr>currentTranscript := transcript data\<rparr>\<rparr>
        in displayTranscript (transcript data) False p1)"

subsection \<open>Objects in the popup's heap\<close>

text \<open>
  \<open>getState\<close> is about object identity, so here objects live in a store: an object is
  the list of its own properties, an address is a position in the store, and a value is
  a primitive or the address of an object. \<open>{ ...state }\<close> allocates a new object and
  copies the own properties of \<open>state\<close> into it. The controller's \<open>state\<close> is a \<open>const\<close>
  binding, so it is an address \<open>st\<close> that never changes.
\<close>

datatype js_value = JBool bool | JString jstext | JNumber nat | JNull | JRef nat

type_synonym js_object = "(string \<times> js_value) list"

type_synonym heap = "js_object list"

definition deref :: "heap \<Rightarrow> nat \<Rightarrow> js_object option" where
  "deref h a = (if a < length h then Some (h ! a) else None)"

definition getState :: "nat \<Rightarrow> heap \<Rightarrow> (nat \<times> heap) option" where
  "getState st h =
     (case deref h st of
        None \<Rightarrow> None
      | Some obj \<Rightarrow> Some (length h, h @ [obj]))"

text \<open>The writes a caller can make to an object it holds: \<open>o.k = v\<close> and \<open>delete o.k\<close>.\<close>

definition assign :: "nat \<Rightarrow> string \<Rightarrow> js_value \<Rightarrow> heap \<Rightarrow> heap" where
  "assign a k v h =
     (case deref h a of
        None \<Rightarrow> h
      | Some obj \<Rightarrow>
          h[a := (if k \<in> fst ` set obj then map (\<lambda>(k', v'). if k' = k then (k', v) else (k', v')) obj
                  else obj @ [(k, v)])])"

definition delete_property :: "nat \<Rightarrow> string \<Rightarrow> heap \<Rightarrow> heap" where
  "delete_property a k h =
     (case deref h a of
        None \<Rightarrow> h
      | Some obj \<Rightarrow> h[a := filter (\<lambda>(k', v'). k' \<noteq> k) obj])"

section \<open>What the specification says, in its own words\<close>

text \<open>
  "Every run of white space collapsed to a single space": each white-space character
  becomes a space, and of adjacent spaces only the last is kept.
\<close>

fun squeeze :: "jstext \<Rightarrow> jstext" where
  "squeeze (a # b # cs) =
     (if a = 0x20 \<and> b = 0x20 then squeeze (b # cs) else a # squeeze (b # cs))"
| "squeeze cs = cs"

definition collapse_spec :: "jstext \<Rightarrow> jstext" where
  "collapse_spec t = squeeze (map (\<lambda>c. if js_space c then 0x20 else c) t)"

text \<open>
  The first element of a document with a property: its position is the number of
  elements before it, none of which has the property.
\<close>

definition first_match :: "('a \<Rightarrow> bool) \<Rightarrow> 'a list \<Rightarrow> nat option" where
  "first_match P xs =
     (let n = length (takeWhile (\<lambda>x. \<not> P x) xs) in if n < length xs then Some n else None)"

text \<open>
  "A matching input/textarea, by partial name/id match": an \<open>input\<close> whose \<open>name\<close> or
  \<open>id\<close> contains the key, or a \<open>textarea\<close> whose \<open>name\<close> contains it.
\<close>

definition is_field_for :: "string \<Rightarrow> element \<Rightarrow> bool" where
  "is_field_for key e \<longleftrightarrow> key \<noteq> [] \<and>
     ((tag e = ''input'' \<and> (\<exists>x. attrs e ''name'' = Some x \<and> includes_str x key))
      \<or> (tag e = ''input'' \<and> (\<exists>x. attrs e ''id'' = Some x \<and> includes_str x key))
      \<or> (tag e = ''textarea'' \<and> (\<exists>x. attrs e ''name'' = Some x \<and> includes_str x key)))"



text \<open>
  "The heuristic search-input selector": an \<open>input\<close> of type \<open>search\<close>, or one whose
  \<open>name\<close> or \<open>placeholder\<close> contains \<open>search\<close>.
\<close>

definition is_search_input :: "element \<Rightarrow> bool" where
  "is_search_input e \<longleftrightarrow> tag e = ''input'' \<and>
     ((\<exists>x. attrs e ''type'' = Some x \<and> map ascii_lower x = ''search'')
      \<or> (\<exists>x. attrs e ''name'' = Some x \<and> includes_str x ''search'')
      \<or> (\<exists>x. attrs e ''placeholder'' = Some x \<and> includes_str x ''search''))"

text \<open>
  The search input of a page can be used when it is no file input and the \<open>submit\<close> of
  its form, if it has one, is not hidden behind a control of that name.
\<close>

definition search_usable :: "page \<Rightarrow> nat \<Rightarrow> bool" where
  "search_usable p i \<longleftrightarrow>
     \<not> is_file_input (elements p ! i)
     \<and> (case form (elements p ! i) of None \<Rightarrow> True | Some f \<Rightarrow> \<not> submit_shadowed p f)"




text \<open>
  A page is passive when its own scripts leave the document as it is. Two documents have
  the same shape when their elements agree in tag, attributes and form; two pages are
  the same document when they have the same shape, sanitize alike and run the same
  scripts.
\<close>

definition passive_page :: "page \<Rightarrow> bool" where
  "passive_page p \<longleftrightarrow> (\<forall>t es. script p t es = es)"

definition same_shape :: "element list \<Rightarrow> element list \<Rightarrow> bool" where
  "same_shape xs ys \<longleftrightarrow>
     list_all2 (\<lambda>a b. tag a = tag b \<and> attrs a = attrs b \<and> form a = form b) xs ys"

definition same_document :: "page \<Rightarrow> page \<Rightarrow> bool" where
  "same_document p q \<longleftrightarrow>
     same_shape (elements p) (elements q) \<and> sanitize q = sanitize p \<and> script q = script p"


text \<open>
  The intent names the specification lists as known, and the names the router has a
  case for.
\<close>

definition spec_intents :: "string list" where
  "spec_intents = [''search'', ''website_search'', ''form_fill'', ''book_ticket'', ''open_site'',
                   ''qna'', ''other'']"

definition routed_intents :: "string list" where
  "routed_intents = [''search'', ''website_search'', ''form_fill'', ''book_ticket'', ''open_site'',
                     ''qna'', ''summarize'', ''other'']"

text \<open>"Dispatch is a static mapping from intent name to handler."\<close>

definition handler_table ::
  "string \<rightharpoonup> (IntentPayload \<Rightarrow> browser \<Rightarrow> Result promise \<times> browser)" where
  "handler_table =
     [''search'' \<mapsto> handleSearch, ''website_search'' \<mapsto> handleWebsiteSearch_router,
      ''form_fill'' \<mapsto> handleFormFill_router, ''book_ticket'' \<mapsto> handleBooking_router,
      ''open_site'' \<mapsto> handleOpenSite, ''qna'' \<mapsto> handleQnA,
      ''summarize'' \<mapsto> handleSummarize_router, ''other'' \<mapsto> handleOther]"

text \<open>The line each handler prints when it starts.\<close>

definition banner :: "string \<Rightarrow> string" where
  "banner i =
     (if i = ''search'' then ''[Router] SEARCH''
      else if i = ''website_search'' then ''[Router] WEBSITE SEARCH''
      else if i = ''form_fill'' then ''[Router] FORM FILL''
      else if i = ''book_ticket'' then ''[Router] BOOK TICKET''
      else if i = ''open_site'' then ''[Router] OPEN SITE''
      else if i = ''qna'' then ''[Router] QNA''
      else if i = ''summarize'' then ''[Router] SUMMARIZE''
      else ''[Router] OTHER'')"

fun is_warn :: "console_entry \<Rightarrow> bool" where
  "is_warn (ConsoleWarn _) = True"
| "is_warn _ = False"

text \<open>\<open>b'\<close> prints what \<open>b\<close> printed and then some more, none of it a warning.\<close>

definition quiet :: "browser \<Rightarrow> browser \<Rightarrow> bool" where
  "quiet b b' \<longleftrightarrow> (\<exists>rest. console b' = console b @ rest \<and> \<not> list_ex is_warn rest)"

text \<open>What a handler leaves on the console after the router's first line and its own.\<close>

definition started :: "string \<Rightarrow> browser \<Rightarrow> browser \<Rightarrow> bool" where
  "started i b b' \<longleftrightarrow>
     (\<exists>rest. console b' = console b @ [ConsoleLog (''[Router] Routing intent: '' @ i),
                                        ConsoleLog (banner i)] @ rest
            \<and> \<not> list_ex is_warn rest)"

text \<open>
  A tab is the active one when it is active in the current window; its URL is restricted
  when it starts with \<open>chrome://\<close>.
\<close>

definition is_active :: "tab \<Rightarrow> bool" where
  "is_active t \<longleftrightarrow> active t \<and> currentWindow t"

definition usable :: "tab \<Rightarrow> bool" where
  "usable t \<longleftrightarrow> \<not> startsWith (url t) ''chrome://''"

text \<open>What the two queries report; a query that fails reports nothing.\<close>

definition seen_active :: "browser \<Rightarrow> tab list" where
  "seen_active b = (if active_query_error b = None then filter is_active (tabs b) else [])"

definition seen_usable :: "browser \<Rightarrow> tab list" where
  "seen_usable b = (if all_query_error b = None then filter usable (tabs b) else [])"

text \<open>The tab that \<open>chrome.tabs.create\<close> makes for a URL.\<close>

definition new_tab :: "browser \<Rightarrow> string \<Rightarrow> tab" where
  "new_tab b u = \<lparr>tab_id = next_tab_id b, url = u, active = True, currentWindow = True\<rparr>"

text \<open>
  The backend call: \<open>POST {base_url}/process\<close> with the JSON body \<open>{text: transcript}\<close>.
  A transcript is blank when it is empty or white space only.
\<close>

definition process_request :: "jstext \<Rightarrow> request" where
  "process_request t = \<lparr>req_url = ''http://localhost:3000/api/process'', req_method = ''POST'',
     req_headers = [(''Content-Type'', ''application/json'')], body_text = t\<rparr>"

definition blank :: "jstext \<Rightarrow> bool" where
  "blank t \<longleftrightarrow> list_all js_space t"

section \<open>Concrete inputs\<close>

text \<open>
  A browser that keeps every assigned value as it is and rejects every raw selector, and
  a page without scripts of its own.
\<close>

definition keep_value :: "element \<Rightarrow> string \<Rightarrow> string" where
  "keep_value e v = v"

definition no_script :: "action list \<Rightarrow> element list \<Rightarrow> element list" where
  "no_script t es = es"

definition reject_selector :: "string \<Rightarrow> element list \<Rightarrow> js_error + nat option" where
  "reject_selector s es =
     Inl (DOMException ''SyntaxError''
            (''Failed to execute 'querySelector' on 'Document': '' @ [CHR 0x27] @ s
             @ [CHR 0x27] @ '' is not a valid selector.''))"

definition no_entities :: Entities where
  "no_entities = \<lparr>query = None, website = None, form_fields = None, from_entity = None,
                   to_entity = None, date_entity = None\<rparr>"


definition bare_page :: page where
  "bare_page = \<lparr>hostname = ''example.com'', elements = [], innerText = [],
     sanitize = keep_value, raw_query = reject_selector, script = no_script, trace = []\<rparr>"

text \<open>A page whose text is a blank, \<open>a\<close>, a blank, a tab, U+2003, \<open>b\<close>, a blank.\<close>

definition spaced_page :: page where
  "spaced_page = \<lparr>hostname = ''example.com'', elements = [],
     innerText = [0x20, 0x61, 0x20, 0x09, 0x2003, 0x62, 0x20],
     sanitize = keep_value, raw_query = reject_selector, script = no_script, trace = []\<rparr>"

definition email_input :: element where
  "email_input = \<lparr>tag = ''input'', attrs = [''type'' \<mapsto> ''text'', ''name'' \<mapsto> ''email''],
     val = [], form = Some 0\<rparr>"

definition name_input :: element where
  "name_input = \<lparr>tag = ''input'', attrs = [''id'' \<mapsto> ''user_name''], val = [], form = Some 0\<rparr>"




definition cats_payload :: IntentPayload where
  "cats_payload = \<lparr>intent = ''search'', entities = no_entities\<lparr>query := Some ''cats & dogs''\<rparr>,
     payload_message = []\<rparr>"

definition search_input :: element where
  "search_input = \<lparr>tag = ''input'', attrs = [''type'' \<mapsto> ''Search''], val = [], form = None\<rparr>"

definition shop_page :: page where
  "shop_page = \<lparr>hostname = ''shop.example.com'', elements = [search_input], innerText = [],
     sanitize = keep_value, raw_query = reject_selector, script = no_script, trace = []\<rparr>"

text \<open>
  A page whose only control is a file input named \<open>photo_search\<close>: the name contains
  \<open>photo\<close>, \<open>to\<close> and \<open>search\<close>.
\<close>

definition photo_input :: element where
  "photo_input = \<lparr>tag = ''input'', attrs = [''type'' \<mapsto> ''file'', ''name'' \<mapsto> ''photo_search''],
     val = [], form = None\<rparr>"

definition upload_page :: page where
  "upload_page = \<lparr>hostname = ''example.com'', elements = [photo_input], innerText = [],
     sanitize = keep_value, raw_query = reject_selector, script = no_script, trace = []\<rparr>"




text \<open>A search box in a form that also has a button named \<open>submit\<close>.\<close>

definition boxed_search :: element where
  "boxed_search = \<lparr>tag = ''input'', attrs = [''name'' \<mapsto> ''search''], val = [], form = Some 0\<rparr>"

definition submit_button :: element where
  "submit_button = \<lparr>tag = ''button'', attrs = [''type'' \<mapsto> ''submit'', ''name'' \<mapsto> ''submit''],
     val = [], form = Some 0\<rparr>"

definition shadowed_page :: page where
  "shadowed_page = \<lparr>hostname = ''example.com'', elements = [boxed_search, submit_button],
     innerText = [], sanitize = keep_value, raw_query = reject_selector, script = no_script, trace = []\<rparr>"

text \<open>
  A page with a script: when the search box gets its \<open>input\<close> event, a button named
  \<open>submit\<close> is added to its form.
\<close>

definition add_submit :: "action list \<Rightarrow> element list \<Rightarrow> element list" where
  "add_submit t es = (if t \<noteq> [] \<and> last t = Dispatch 0 InputEvent then es @ [submit_button] else es)"

definition growing_page :: page where
  "growing_page = \<lparr>hostname = ''example.com'', elements = [boxed_search], innerText = [],
     sanitize = keep_value, raw_query = reject_selector, script = add_submit, trace = []\<rparr>"

definition reader_tab :: tab where
  "reader_tab = \<lparr>tab_id = 7, url = ''https://example.com/'', active = True, currentWindow = True\<rparr>"

definition settings_tab :: tab where
  "settings_tab = \<lparr>tab_id = 3, url = ''chrome://settings/'', active = False, currentWindow = True\<rparr>"

definition reader_browser :: browser where
  "reader_browser = \<lparr>tabs = [reader_tab], next_tab_id = 8, active_query_error = None,
     all_query_error = None, create_error = None, updates = [(8, ''loading''), (8, ''complete'')],
     load = (\<lambda>u. None), pages = [7 \<mapsto> spaced_page], sent = [], console = []\<rparr>"

text \<open>No tab is active here: the first is an internal page, the second an ordinary one.\<close>

definition background_browser :: browser where
  "background_browser = \<lparr>tabs = [settings_tab, reader_tab\<lparr>active := False\<rparr>], next_tab_id = 8,
     active_query_error = None, all_query_error = None, create_error = None, updates = [],
     load = (\<lambda>u. None), pages = Map.empty, sent = [], console = []\<rparr>"

definition settings_browser :: browser where
  "settings_browser = \<lparr>tabs = [settings_tab], next_tab_id = 8,
     active_query_error = None, all_query_error = None, create_error = None,
     updates = [(8, ''loading''), (8, ''complete'')],
     load = (\<lambda>u. None), pages = Map.empty, sent = [], console = []\<rparr>"

definition summarize_payload :: IntentPayload where
  "summarize_payload = \<lparr>intent = ''summarize'', entities = no_entities, payload_message = []\<rparr>"

definition dance_payload :: IntentPayload where
  "dance_payload = \<lparr>intent = ''dance'', entities = no_entities, payload_message = []\<rparr>"

definition httpbin_payload :: IntentPayload where
  "httpbin_payload = \<lparr>intent = ''open_site'',
     entities = no_entities\<lparr>website := Some ''httpbin.org''\<rparr>, payload_message = []\<rparr>"

definition idle_state :: ui_state where
  "idle_state = \<lparr>isListening = True, currentTranscript = [], finalTranscript = [],
     currentResponse = [], hasError = False, sessionStartTime = Some 0\<rparr>"

definition idle_popup :: popup where
  "idle_popup = \<lparr>state = idle_state, statusText = Some ''Listening...'',
     statusDot = Some [''status-dot'', ''listening''], micLabel = Some ''Listening...'',
     transcriptArea = Some TranscriptPlaceholder, responseArea = Some ResponsePlaceholder,
     fetches = [], utterances = [], runtime_messages = []\<rparr>"

definition hello :: jstext where
  "hello = [0x68, 0x69]"

definition sample_heap :: heap where
  "sample_heap = [[(''isListening'', JBool False), (''currentTranscript'', JString []),
                   (''sessionStartTime'', JNull)]]"

section \<open>Properties of the content script\<close>

subsection \<open>White space\<close>

lemma js_space_blank: "js_space 0x20"
  by (simp add: js_space_def)

lemma squeeze_run:
  "squeeze (0x20 # map (\<lambda>c. if js_space c then 0x20 else c) cs) =
   0x20 # squeeze (map (\<lambda>c. if js_space c then 0x20 else c) (dropWhile js_space cs))"
proof (induction cs)
  case Nil
  then show ?case by simp
next
  case (Cons d ds)
  show ?case
  proof (cases "js_space d")
    case True
    then show ?thesis using Cons.IH by simp
  next
    case False
    then have "d \<noteq> 0x20" using js_space_blank by auto
    with False show ?thesis by simp
  qed
qed

lemma squeeze_keep: "\<not> js_space c \<Longrightarrow> squeeze (c # xs) = c # squeeze xs"
  using js_space_blank by (cases xs) auto

lemma replace_ws_spec: "replace_ws t = collapse_spec t"
  unfolding collapse_spec_def
proof (induction t rule: replace_ws.induct)
  case 1
  then show ?case by simp
next
  case (2 c cs)
  show ?case
  proof (cases "js_space c")
    case True
    with 2 show ?thesis by (simp add: squeeze_run)
  next
    case False
    with 2 show ?thesis by (simp add: squeeze_keep)
  qed
qed

subsection \<open>SUMMARIZE\<close>

text \<open>
  C8. The summary that \<open>SUMMARIZE\<close> returns is the page's text with every run of white
  space collapsed to one space, then trimmed, then cut to its first 5000 code units; it
  is never longer than 5000, and the page is left as it was.
\<close>

theorem summarize_summary:
  "handleSummarize p =
     (Inr \<lparr>success = True, message = Some ''Page content extracted'', error = None,
           summary = Some (take 5000 (trim (collapse_spec (innerText p)))), tabId = None\<rparr>, p)
   \<and> (\<forall>r s. fst (handleSummarize p) = Inr r \<and> summary r = Some s \<longrightarrow> length s \<le> 5000)"
  by (auto simp: handleSummarize_def slice0_def replace_ws_spec)

theorem summarize_summary_witness:
  "fst (handleSummarize spaced_page) =
     Inr \<lparr>success = True, message = Some ''Page content extracted'', error = None,
          summary = Some [0x61, 0x20, 0x62], tabId = None\<rparr>"
  using summarize_summary [of spaced_page]
  by (simp add: spaced_page_def collapse_spec_def trim_def js_space_def)

subsection \<open>Looking elements up\<close>

lemma find_first_eq: "find_first P xs = first_match P xs"
  by (induction xs) (auto simp: first_match_def Let_def)


lemma first_match_Some:
  "first_match P xs = Some i \<longleftrightarrow> i < length xs \<and> P (xs ! i) \<and> (\<forall>j < i. \<not> P (xs ! j))"
proof
  assume "first_match P xs = Some i"
  then have i: "i = length (takeWhile (\<lambda>x. \<not> P x) xs)" and lt: "i < length xs"
    by (auto simp: first_match_def Let_def split: if_splits)
  have "P (xs ! i)" using nth_length_takeWhile [of "\<lambda>x. \<not> P x" xs] i lt by simp
  moreover have "\<not> P (xs ! j)" if "j < i" for j
    using that i takeWhile_nth [of j "\<lambda>x. \<not> P x" xs] nth_mem [of j "takeWhile (\<lambda>x. \<not> P x) xs"]
      set_takeWhileD [of "xs ! j" "\<lambda>x. \<not> P x" xs]
    by metis
  ultimately show "i < length xs \<and> P (xs ! i) \<and> (\<forall>j < i. \<not> P (xs ! j))" using lt by blast
next
  assume a: "i < length xs \<and> P (xs ! i) \<and> (\<forall>j < i. \<not> P (xs ! j))"
  let ?n = "length (takeWhile (\<lambda>x. \<not> P x) xs)"
  have le: "i \<le> ?n"
    using a by (intro length_takeWhile_less_P_nth) auto
  have "\<not> i < ?n"
  proof
    assume lt: "i < ?n"
    then have "takeWhile (\<lambda>x. \<not> P x) xs ! i = xs ! i" by (rule takeWhile_nth)
    moreover have "takeWhile (\<lambda>x. \<not> P x) xs ! i \<in> set (takeWhile (\<lambda>x. \<not> P x) xs)"
      using lt by (rule nth_mem)
    ultimately have "\<not> P (xs ! i)" using set_takeWhileD by metis
    with a show False by simp
  qed
  with le have "?n = i" by simp
  with a show "first_match P xs = Some i" by (simp add: first_match_def)
qed




lemma same_shape_refl: "same_shape xs xs"
  by (simp add: same_shape_def list_all2_refl)

lemma same_shape_length: "same_shape xs ys \<Longrightarrow> length ys = length xs"
  by (simp add: same_shape_def list_all2_lengthD)

lemma same_shape_nth:
  "same_shape xs ys \<Longrightarrow> i < length xs \<Longrightarrow>
   tag (ys ! i) = tag (xs ! i) \<and> attrs (ys ! i) = attrs (xs ! i) \<and> form (ys ! i) = form (xs ! i)"
  by (simp add: same_shape_def list_all2_conv_all_nth)

lemma same_shape_set_val: "same_shape xs ys \<Longrightarrow> same_shape xs (ys[i := (ys ! i)\<lparr>val := v\<rparr>])"
proof -
  have "tag (ys[i := (ys ! i)\<lparr>val := v\<rparr>] ! j) = tag (ys ! j)
        \<and> attrs (ys[i := (ys ! i)\<lparr>val := v\<rparr>] ! j) = attrs (ys ! j)
        \<and> form (ys[i := (ys ! i)\<lparr>val := v\<rparr>] ! j) = form (ys ! j)"
    if "j < length ys" for j
    using that by (cases "i = j") simp_all
  then show "same_shape xs ys \<Longrightarrow> same_shape xs (ys[i := (ys ! i)\<lparr>val := v\<rparr>])"
    unfolding same_shape_def by (simp add: list_all2_conv_all_nth)
qed

lemma is_file_input_shape:
  "same_shape xs ys \<Longrightarrow> i < length xs \<Longrightarrow> is_file_input (ys ! i) = is_file_input (xs ! i)"
  using same_shape_nth [of xs ys i] by (simp add: is_file_input_def)

lemma same_document_refl: "same_document p p"
  by (simp add: same_document_def same_shape_refl)

text \<open>Filling element \<open>i\<close> of a page that is the same document as \<open>p\<close>.\<close>

lemma set_value_document:
  assumes "same_document p q" and "i < length (elements p)"
  shows "set_value i v q =
           (if is_file_input (elements p ! i) \<and> v \<noteq> [] then Inl file_value_error
            else Inr (q\<lparr>elements := (elements q)[i := (elements q ! i)\<lparr>val := sanitize p (elements q ! i) v\<rparr>],
                       trace := trace q @ [SetValue i v]\<rparr>))"
  using assms is_file_input_shape [of "elements p" "elements q" i]
  by (simp add: set_value_def same_document_def act_def Let_def)

lemma same_document_act: "same_document p q \<Longrightarrow> same_document p (act a q)"
  by (simp add: same_document_def act_def)

text \<open>On a passive page an action that lets the page's scripts run is recorded and no more.\<close>

lemma fire_passive:
  "passive_page p \<Longrightarrow> same_document p q \<Longrightarrow> fire a q = act a q"
  by (simp add: fire_def act_def passive_page_def same_document_def Let_def)

lemma passive_actions:
  assumes "passive_page p" and "same_document p q"
  shows "focus i q = act (Focus i) q" and "dispatchEvent i ev q = act (Dispatch i ev) q"
    and "wait ms q = act (Wait ms) q" and "click i q = act (Click i) q"
  using fire_passive [OF assms] by (simp_all add: focus_def dispatchEvent_def wait_def click_def)

lemma passive_no_script: "passive_page p" if "script p = no_script"
  using that by (simp add: passive_page_def no_script_def)

lemma same_document_filled:
  "same_document p q \<Longrightarrow>
   same_document p (q\<lparr>elements := (elements q)[i := (elements q ! i)\<lparr>val := x\<rparr>], trace := t\<rparr>)"
  by (simp add: same_document_def same_shape_set_val)



subsection \<open>FORM_FILL\<close>










lemma first_match_signup [simp]:
  "first_match (is_field_for ''name'') [email_input, name_input] = Some 1"
  "first_match (is_field_for ''email'') [email_input, name_input] = Some 0"
  by (simp_all add: first_match_def is_field_for_def email_input_def name_input_def startsWith_def)



subsection \<open>WEBSITE_SEARCH and SEARCH\<close>

lemma is_image_input_shape:
  "tag a = tag b \<Longrightarrow> attrs a = attrs b \<Longrightarrow> is_image_input a = is_image_input b"
  by (simp add: is_image_input_def)

lemma list_ex_shape:
  "list_all2 (\<lambda>a b. P a = Q b) xs ys \<Longrightarrow> list_ex P xs = list_ex Q ys"
  by (induction xs ys rule: list_all2_induct) auto

lemma submit_shadowed_shape:
  assumes "same_shape (elements p) (elements q)"
  shows "submit_shadowed q f = submit_shadowed p f"
proof -
  have "list_all2 (\<lambda>a b.
          (form a = Some f \<and> \<not> is_image_input a
             \<and> (attrs a ''name'' = Some ''submit'' \<or> attrs a ''id'' = Some ''submit''))
        = (form b = Some f \<and> \<not> is_image_input b
             \<and> (attrs b ''name'' = Some ''submit'' \<or> attrs b ''id'' = Some ''submit'')))
        (elements p) (elements q)"
    using assms unfolding same_shape_def
  proof (rule list_all2_mono)
    fix a b :: element assume "tag a = tag b \<and> attrs a = attrs b \<and> form a = form b"
    then show "(form a = Some f \<and> \<not> is_image_input a
             \<and> (attrs a ''name'' = Some ''submit'' \<or> attrs a ''id'' = Some ''submit''))
        = (form b = Some f \<and> \<not> is_image_input b
             \<and> (attrs b ''name'' = Some ''submit'' \<or> attrs b ''id'' = Some ''submit''))"
      using is_image_input_shape [of a b] by auto
  qed
  then show ?thesis unfolding submit_shadowed_def by (rule list_ex_shape [symmetric])
qed

lemma search_selector_matches: "list_ex (matches e) search_selector = is_search_input e"
  by (auto simp: search_selector_def is_search_input_def attr_norm_def ascii_lower_def
        split: option.splits)

lemma querySelector_search:
  "querySelector p search_selector = first_match is_search_input (elements p)"
  unfolding querySelector_def find_first_eq [symmetric] using search_selector_matches by presburger

lemma website_search_none:
  assumes "query (entities d) = Some q" and "q \<noteq> []"
    and "first_match is_search_input (elements p) = None"
  shows "handleWebsiteSearch d p = (Inl (Error ''No search box found on website''), p)"
  using assms by (simp add: handleWebsiteSearch_def querySelector_search)

lemma website_search_found:
  assumes "query (entities d) = Some q" and "q \<noteq> []"
    and m: "first_match is_search_input (elements p) = Some i"
    and pv: "passive_page p"
  shows "fst (handleWebsiteSearch d p) =
           (if is_file_input (elements p ! i) then Inl file_value_error
            else case form (elements p ! i) of
                   None \<Rightarrow> Inr (ok_result ''Website search completed'')
                 | Some f \<Rightarrow>
                     if submit_shadowed p f
                     then Inl (TypeError ''searchInput.form.submit is not a function'')
                     else Inr (ok_result ''Website search completed''))"
proof -
  from m have i: "i < length (elements p)" by (simp add: first_match_Some)
  let ?p1 = "act (Focus i) p"
  have f1: "focus i p = ?p1" using passive_actions(1) [OF pv same_document_refl] .
  have d1: "same_document p ?p1" using same_document_refl by (rule same_document_act)
  show ?thesis
  proof (cases "is_file_input (elements p ! i)")
    case True
    then have "set_value i q ?p1 = Inl file_value_error"
      using set_value_document [OF d1 i, of q] assms(2) by simp
    with assms True f1 show ?thesis
      by (simp add: handleWebsiteSearch_def querySelector_search Let_def)
  next
    case False
    let ?p2 = "?p1\<lparr>elements := (elements ?p1)[i := (elements ?p1 ! i)\<lparr>val := sanitize p (elements ?p1 ! i) q\<rparr>],
                   trace := trace ?p1 @ [SetValue i q]\<rparr>"
    have sv: "set_value i q ?p1 = Inr ?p2"
      using set_value_document [OF d1 i, of q] False by simp
    let ?p3 = "act (Dispatch i InputEvent) ?p2"
    let ?p4 = "act (Dispatch i ChangeEvent) ?p3"
    let ?p5 = "act (Wait 300) ?p4"
    have d2: "same_document p ?p2" using d1 by (rule same_document_filled)
    have d3: "same_document p ?p3" using d2 by (rule same_document_act)
    have d4: "same_document p ?p4" using d3 by (rule same_document_act)
    have d5: "same_document p ?p5" using d4 by (rule same_document_act)
    have f3: "dispatchEvent i InputEvent ?p2 = ?p3" using passive_actions(2) [OF pv d2] .
    have f4: "dispatchEvent i ChangeEvent ?p3 = ?p4" using passive_actions(2) [OF pv d3] .
    have f5: "wait 300 ?p4 = ?p5" using passive_actions(3) [OF pv d4] .
    from d5 have sh: "same_shape (elements p) (elements ?p5)" by (simp add: same_document_def)
    have fm: "form (elements ?p5 ! i) = form (elements p ! i)"
      using same_shape_nth [OF sh i] by simp
    have ss: "submit_shadowed ?p5 f = submit_shadowed p f" for f
      using sh by (rule submit_shadowed_shape)
    have run: "handleWebsiteSearch d p =
        (case form (elements ?p5 ! i) of
           Some f \<Rightarrow>
             (case form_submit ''searchInput.form.submit'' f ?p5 of
                Inl err \<Rightarrow> (Inl err, ?p5)
              | Inr p6 \<Rightarrow> (Inr (ok_result ''Website search completed''), p6))
         | None \<Rightarrow> (Inr (ok_result ''Website search completed''), dispatchEvent i KeydownEnter ?p5))"
      using assms(1-3) sv f1 f3 f4 f5
      by (simp add: handleWebsiteSearch_def querySelector_search Let_def
            cong: option.case_cong sum.case_cong)
    show ?thesis
      unfolding run fm using False
      by (cases "form (elements p ! i)") (simp_all add: form_submit_def ss)
  qed
qed

text \<open>
  C5, as amended. With a query given (a non-empty string, which is what the handler
  tests), \<open>WEBSITE_SEARCH\<close> fails when no element of the page is a search input, with
  the error \<open>No search box found on website\<close> and the page untouched. When there is
  one, on a page whose own scripts leave the document alone, it fails in two cases
  only: the first search input is a file input, whose value cannot be assigned, or its
  form has a control named \<open>submit\<close>, which hides the form's \<open>submit\<close>. In every other
  case it succeeds. No error escapes: each failure is the reply
  \<open>{success: false, error}\<close> with the message of what was thrown.
\<close>

theorem website_search_outcome:
  "query (entities d) = Some q \<Longrightarrow> q \<noteq> [] \<Longrightarrow>
   (first_match is_search_input (elements p) = None \<longrightarrow>
      run_handler \<lparr>cmd_type = ''WEBSITE_SEARCH'', cmd_payload = d\<rparr> p
        = (Inl (Error ''No search box found on website''), p)
      \<and> onMessage \<lparr>cmd_type = ''WEBSITE_SEARCH'', cmd_payload = d\<rparr> p
        = (fail_result ''No search box found on website'', p))
   \<and> (passive_page p \<and> first_match is_search_input (elements p) = Some i
        \<and> is_file_input (elements p ! i) \<longrightarrow>
        fst (onMessage \<lparr>cmd_type = ''WEBSITE_SEARCH'', cmd_payload = d\<rparr> p)
          = fail_result (error_message file_value_error))
   \<and> (passive_page p \<and> first_match is_search_input (elements p) = Some i
        \<and> \<not> is_file_input (elements p ! i)
        \<and> form (elements p ! i) = Some f \<and> submit_shadowed p f \<longrightarrow>
        fst (onMessage \<lparr>cmd_type = ''WEBSITE_SEARCH'', cmd_payload = d\<rparr> p)
          = fail_result ''searchInput.form.submit is not a function'')
   \<and> (passive_page p \<and> first_match is_search_input (elements p) = Some i
        \<and> search_usable p i \<longrightarrow>
        fst (onMessage \<lparr>cmd_type = ''WEBSITE_SEARCH'', cmd_payload = d\<rparr> p)
          = ok_result ''Website search completed'')
   \<and> (passive_page p \<longrightarrow>
        success (fst (onMessage \<lparr>cmd_type = ''WEBSITE_SEARCH'', cmd_payload = d\<rparr> p))
          = (\<exists>j. first_match is_search_input (elements p) = Some j \<and> search_usable p j))"
proof -
  assume q: "query (entities d) = Some q" "q \<noteq> []"
  let ?m = "\<lparr>cmd_type = ''WEBSITE_SEARCH'', cmd_payload = d\<rparr>"
  have rh: "run_handler ?m p = handleWebsiteSearch d p" by (simp add: run_handler_def)
  have om: "fst (onMessage ?m p) =
              (case fst (handleWebsiteSearch d p) of
                 Inr r \<Rightarrow> r | Inl err \<Rightarrow> fail_result (error_message err))"
    by (cases "handleWebsiteSearch d p") (auto simp: onMessage_def rh split: sum.splits)
  have c1: "first_match is_search_input (elements p) = None \<longrightarrow>
      run_handler ?m p = (Inl (Error ''No search box found on website''), p)
      \<and> onMessage ?m p = (fail_result ''No search box found on website'', p)"
    using website_search_none [OF q] by (simp add: onMessage_def rh)
  have c2: "passive_page p \<and> first_match is_search_input (elements p) = Some i
        \<and> is_file_input (elements p ! i) \<longrightarrow>
        fst (onMessage ?m p) = fail_result (error_message file_value_error)"
    using website_search_found [OF q, of p i] by (simp add: om)
  have c3: "passive_page p \<and> first_match is_search_input (elements p) = Some i
        \<and> \<not> is_file_input (elements p ! i)
        \<and> form (elements p ! i) = Some f \<and> submit_shadowed p f \<longrightarrow>
        fst (onMessage ?m p) = fail_result ''searchInput.form.submit is not a function''"
    using website_search_found [OF q, of p i] by (simp add: om)
  have ok: "fst (onMessage ?m p) = ok_result ''Website search completed''"
    if "first_match is_search_input (elements p) = Some j" and "search_usable p j"
      and "passive_page p" for j
    using that website_search_found [OF q, of p j]
    by (auto simp: om search_usable_def split: option.splits)
  have c4: "passive_page p \<and> first_match is_search_input (elements p) = Some i
        \<and> search_usable p i \<longrightarrow>
        fst (onMessage ?m p) = ok_result ''Website search completed''"
    using ok by blast
  have c5: "success (fst (onMessage ?m p))
        = (\<exists>j. first_match is_search_input (elements p) = Some j \<and> search_usable p j)"
    if pv: "passive_page p"
  proof (cases "first_match is_search_input (elements p)")
    case None
    with c1 show ?thesis by (simp add: fail_result_def)
  next
    case (Some j)
    show ?thesis
    proof (cases "search_usable p j")
      case True
      with Some ok [of j] pv show ?thesis by (simp add: ok_result_def)
    next
      case False
      then have "\<not> success (fst (onMessage ?m p))"
        using website_search_found [OF q Some pv]
        by (auto simp: om search_usable_def fail_result_def split: option.splits if_splits)
      with Some False show ?thesis by simp
    qed
  qed
  have c5': "passive_page p \<longrightarrow>
        success (fst (onMessage ?m p))
          = (\<exists>j. first_match is_search_input (elements p) = Some j \<and> search_usable p j)"
    using c5 by blast
  show ?thesis by (intro conjI) (fact c1 c2 c3 c4 c5')+
qed

theorem website_search_witness:
  "query (entities cats_payload) = Some ''cats & dogs''
   \<and> onMessage \<lparr>cmd_type = ''WEBSITE_SEARCH'', cmd_payload = cats_payload\<rparr> bare_page
       = (fail_result ''No search box found on website'', bare_page)
   \<and> passive_page shop_page \<and> passive_page shadowed_page
   \<and> first_match is_search_input (elements shop_page) = Some 0
   \<and> search_usable shop_page 0
   \<and> fst (onMessage \<lparr>cmd_type = ''WEBSITE_SEARCH'', cmd_payload = cats_payload\<rparr> shop_page)
       = ok_result ''Website search completed''
   \<and> first_match is_search_input (elements shadowed_page) = Some 0
   \<and> submit_shadowed shadowed_page 0
   \<and> fst (onMessage \<lparr>cmd_type = ''WEBSITE_SEARCH'', cmd_payload = cats_payload\<rparr> shadowed_page)
       = fail_result ''searchInput.form.submit is not a function''"
proof -
  have q: "query (entities cats_payload) = Some ''cats & dogs''" "''cats & dogs'' \<noteq> []"
    by (simp_all add: cats_payload_def no_entities_def)
  have shop: "first_match is_search_input (elements shop_page) = Some 0" "search_usable shop_page 0"
    by (simp_all add: first_match_def shop_page_def search_input_def is_search_input_def
          ascii_lower_def search_usable_def is_file_input_def)
  have sh: "first_match is_search_input (elements shadowed_page) = Some 0"
    "submit_shadowed shadowed_page 0" "\<not> is_file_input (elements shadowed_page ! 0)"
    "form (elements shadowed_page ! 0) = Some 0"
    by (simp_all add: first_match_def shadowed_page_def boxed_search_def submit_button_def
          is_search_input_def startsWith_def submit_shadowed_def is_image_input_def
          is_file_input_def)
  have bare: "first_match is_search_input (elements bare_page) = None"
    by (simp add: first_match_def bare_page_def)
  have pv: "passive_page shop_page" "passive_page shadowed_page"
    by (rule passive_no_script, simp add: shop_page_def)
       (rule passive_no_script, simp add: shadowed_page_def)
  from website_search_outcome [OF q, of bare_page] bare
  have 1: "onMessage \<lparr>cmd_type = ''WEBSITE_SEARCH'', cmd_payload = cats_payload\<rparr> bare_page
       = (fail_result ''No search box found on website'', bare_page)" by blast
  from website_search_outcome [OF q, of shop_page 0] shop pv
  have 2: "fst (onMessage \<lparr>cmd_type = ''WEBSITE_SEARCH'', cmd_payload = cats_payload\<rparr> shop_page)
       = ok_result ''Website search completed''" by blast
  from website_search_outcome [OF q, of shadowed_page 0 0] sh pv
  have 3: "fst (onMessage \<lparr>cmd_type = ''WEBSITE_SEARCH'', cmd_payload = cats_payload\<rparr> shadowed_page)
       = fail_result ''searchInput.form.submit is not a function''" by blast
  from q(1) 1 pv shop 2 sh(1,2) 3 show ?thesis by blast
qed

text \<open>
  C5 as stated fails: the file input named \<open>photo_search\<close> matches the selector, and the
  search fails all the same.
\<close>

theorem website_search_counterexample:
  "query (entities cats_payload) = Some ''cats & dogs''
   \<and> is_search_input (elements upload_page ! 0)
   \<and> fst (onMessage \<lparr>cmd_type = ''WEBSITE_SEARCH'', cmd_payload = cats_payload\<rparr> upload_page)
       = fail_result (error_message file_value_error)
   \<and> success (fst (onMessage \<lparr>cmd_type = ''WEBSITE_SEARCH'', cmd_payload = cats_payload\<rparr> upload_page))
       = False"
  by (simp add: cats_payload_def no_entities_def upload_page_def photo_input_def
        is_search_input_def onMessage_def run_handler_def handleWebsiteSearch_def
        querySelector_def search_selector_def attr_norm_def ascii_lower_def startsWith_def
        focus_def fire_def no_script_def set_value_def is_file_input_def fail_result_def Let_def)

text \<open>
  Why the page has to be passive: on \<open>growing_page\<close> the search box can be used when the
  handler starts, and the page's reaction to the \<open>input\<close> event hides the form's
  \<open>submit\<close> before the handler gets to it.
\<close>

lemma website_search_on_growing_page:
  "first_match is_search_input (elements growing_page) = Some 0
   \<and> search_usable growing_page 0
   \<and> fst (onMessage \<lparr>cmd_type = ''WEBSITE_SEARCH'', cmd_payload = cats_payload\<rparr> growing_page)
       = fail_result ''searchInput.form.submit is not a function''"
  by (simp add: first_match_def growing_page_def boxed_search_def submit_button_def
        is_search_input_def startsWith_def search_usable_def is_file_input_def
        submit_shadowed_def is_image_input_def cats_payload_def no_entities_def onMessage_def
        run_handler_def handleWebsiteSearch_def querySelector_def search_selector_def
        attr_norm_def focus_def dispatchEvent_def wait_def fire_def act_def add_submit_def
        set_value_def form_submit_def keep_value_def Let_def)

text \<open>
  C6, as amended. With a query given and a host name that does not contain \<open>google\<close>,
  \<open>SEARCH\<close> sends the page to the Google search URL with the query percent-encoded and
  answers \<open>{success: true, message: 'Redirecting to Google'}\<close>; the navigation is the
  only thing done, no suspension comes before the answer.
\<close>

theorem search_redirects_to_google:
  "query (entities d) = Some q \<Longrightarrow> q \<noteq> [] \<Longrightarrow> \<not> includes_str (hostname p) ''google'' \<Longrightarrow>
   onMessage \<lparr>cmd_type = ''SEARCH'', cmd_payload = d\<rparr> p =
     (\<lparr>success = True, message = Some ''Redirecting to Google'', error = None, summary = None,
        tabId = None\<rparr>,
      p\<lparr>trace := trace p @ [Navigate (''https://www.google.com/search?q='' @ encodeURIComponent q)]\<rparr>)"
  by (simp add: onMessage_def run_handler_def handleGoogleSearch_def ok_result_def act_def)


theorem search_redirects_witness:
  "query (entities cats_payload) = Some ''cats & dogs''
   \<and> \<not> includes_str (hostname shop_page) ''google''
   \<and> onMessage \<lparr>cmd_type = ''SEARCH'', cmd_payload = cats_payload\<rparr> shop_page =
     (\<lparr>success = True, message = Some ''Redirecting to Google'', error = None, summary = None,
        tabId = None\<rparr>,
      shop_page\<lparr>trace := [Navigate ''https://www.google.com/search?q=cats%20%26%20dogs'']\<rparr>)"
  using search_redirects_to_google [of cats_payload "''cats & dogs''" shop_page]
  by (simp add: cats_payload_def no_entities_def shop_page_def startsWith_def
        encodeURIComponent_def unreserved_def percent_def hex_digit_def)

text \<open>
  C6 as stated fails: on \<open>shop.example.com\<close> with the query \<open>cats & dogs\<close> the
  message is not \<open>Redirecting\<close>.
\<close>

theorem search_redirect_message_counterexample:
  "query (entities cats_payload) = Some ''cats & dogs''
   \<and> \<not> includes_str (hostname shop_page) ''google''
   \<and> fst (onMessage \<lparr>cmd_type = ''SEARCH'', cmd_payload = cats_payload\<rparr> shop_page)
       \<noteq> \<lparr>success = True, message = Some ''Redirecting'', error = None, summary = None,
           tabId = None\<rparr>"
  by (simp add: onMessage_def run_handler_def handleGoogleSearch_def ok_result_def
        cats_payload_def no_entities_def shop_page_def startsWith_def)

subsection \<open>BOOK_TICKET and SUMMARIZE\<close>











section \<open>Properties of the router\<close>

subsection \<open>What the console shows\<close>

lemma quiet_refl: "quiet b b"
  by (simp add: quiet_def)

lemma quiet_same: "console b' = console b \<Longrightarrow> quiet b b'"
  by (simp add: quiet_def)

lemma quiet_trans: "quiet a b \<Longrightarrow> quiet b c \<Longrightarrow> quiet a c"
  by (auto simp: quiet_def)

lemma quiet_log: "quiet b (console_log s b)"
  by (simp add: quiet_def console_log_def)

lemma quiet_error: "quiet b (console_error s b)"
  by (simp add: quiet_def console_error_def)

lemma createNewTab_console: "console (snd (createNewTab u b)) = console b"
  by (simp add: createNewTab_def Let_def split: option.splits)

lemma getUsableTab_quiet: "quiet b (snd (getUsableTab c b))"
proof -
  have "quiet (console_log ''[Router] Creating new tab...'' b)
          (snd (createNewTab default_url (console_log ''[Router] Creating new tab...'' b)))"
    by (rule quiet_same) (rule createNewTab_console)
  with quiet_log have "quiet b (snd (createNewTab default_url (console_log ''[Router] Creating new tab...'' b)))"
    by (rule quiet_trans)
  then show ?thesis
    by (simp add: getUsableTab_def quiet_refl split: sum.splits)
qed

lemma sendToContent_quiet: "quiet b (snd (sendToContent m c b))"
proof -
  obtain r b1 where g: "getUsableTab c b = (r, b1)" by (cases "getUsableTab c b")
  have q1: "quiet b b1" using getUsableTab_quiet [of b c] g by simp
  show ?thesis
  proof (cases r)
    case (Resolved t)
    let ?b2 = "console_log (''[Router] Using tab: '' @ show_nat (tab_id t)) b1"
    have "quiet b ?b2" using q1 quiet_log by (rule quiet_trans)
    then have "quiet b (snd (sendToContent m c b))"
      using g Resolved
      by (auto simp: sendToContent_def Let_def quiet_def split: option.splits prod.splits)
    then show ?thesis .
  next
    case (Rejected e)
    have "quiet b (console_error (''[Router] Send failed: '' @ e) b1)"
      using q1 quiet_error by (rule quiet_trans)
    with g Rejected show ?thesis by (simp add: sendToContent_def)
  next
    case Pending
    with g q1 show ?thesis by (simp add: sendToContent_def)
  qed
qed

lemma started_I:
  assumes "quiet (console_log bn (console_log (''[Router] Routing intent: '' @ i) b)) b'"
    and "bn = banner i"
  shows "started i b b'"
  using assms by (auto simp: started_def quiet_def console_log_def)

lemma handleOpenSite_started:
  "quiet (console_log ''[Router] OPEN SITE'' b) (snd (handleOpenSite d b))"
proof -
  have "console (snd (handleOpenSite d b)) = console (console_log ''[Router] OPEN SITE'' b)"
    using createNewTab_console [of _ "console_log ''[Router] OPEN SITE'' b"]
    by (auto simp: handleOpenSite_def Let_def split: option.splits prod.splits promise.splits)
       (metis snd_conv)+
  then show ?thesis by (rule quiet_same)
qed

subsection \<open>Routing\<close>

lemma routeIntent_started:
  "(intent d \<notin> set routed_intents \<longrightarrow>
      routeIntent d b =
        (Resolved \<lparr>success = False, message = None, error = Some ''Unknown intent'',
                    summary = None, tabId = None\<rparr>,
         b\<lparr>console := console b @ [ConsoleLog (''[Router] Routing intent: '' @ intent d),
                                    ConsoleWarn (''[Router] Unknown intent: '' @ intent d)]\<rparr>))
   \<and> (intent d \<in> set routed_intents \<longrightarrow> started (intent d) b (snd (routeIntent d b)))"
proof (intro conjI impI)
  assume "intent d \<notin> set routed_intents"
  then show "routeIntent d b =
        (Resolved \<lparr>success = False, message = None, error = Some ''Unknown intent'',
                    summary = None, tabId = None\<rparr>,
         b\<lparr>console := console b @ [ConsoleLog (''[Router] Routing intent: '' @ intent d),
                                    ConsoleWarn (''[Router] Unknown intent: '' @ intent d)]\<rparr>)"
    by (simp add: routed_intents_def routeIntent_def Let_def fail_result_def console_warn_def
          console_log_def)
next
  let ?b0 = "console_log (''[Router] Routing intent: '' @ intent d) b"
  assume "intent d \<in> set routed_intents"
  then consider "intent d = ''search''" | "intent d = ''website_search''"
    | "intent d = ''form_fill''" | "intent d = ''book_ticket''" | "intent d = ''open_site''"
    | "intent d = ''qna''" | "intent d = ''summarize''" | "intent d = ''other''"
    by (auto simp: routed_intents_def)
  then show "started (intent d) b (snd (routeIntent d b))"
  proof cases
    case 1
    then show ?thesis
      by (intro started_I [where bn = "''[Router] SEARCH''"])
         (simp_all add: routeIntent_def handleSearch_def sendToContent_quiet banner_def)
  next
    case 2
    then show ?thesis
      by (intro started_I [where bn = "''[Router] WEBSITE SEARCH''"])
         (simp_all add: routeIntent_def handleWebsiteSearch_router_def sendToContent_quiet banner_def)
  next
    case 3
    then show ?thesis
      by (intro started_I [where bn = "''[Router] FORM FILL''"])
         (simp_all add: routeIntent_def handleFormFill_router_def sendToContent_quiet banner_def)
  next
    case 4
    then show ?thesis
      by (intro started_I [where bn = "''[Router] BOOK TICKET''"])
         (simp_all add: routeIntent_def handleBooking_router_def sendToContent_quiet banner_def)
  next
    case 5
    then show ?thesis
      by (intro started_I [where bn = "''[Router] OPEN SITE''"])
         (simp_all add: routeIntent_def handleOpenSite_started banner_def)
  next
    case 6
    then show ?thesis
      by (intro started_I [where bn = "''[Router] QNA''"])
         (simp_all add: routeIntent_def handleQnA_def quiet_refl banner_def)
  next
    case 7
    then show ?thesis
      by (intro started_I [where bn = "''[Router] SUMMARIZE''"])
         (simp_all add: routeIntent_def handleSummarize_router_def sendToContent_quiet banner_def)
  next
    case 8
    then show ?thesis
      by (intro started_I [where bn = "''[Router] OTHER''"])
         (simp_all add: routeIntent_def handleOther_def quiet_refl banner_def)
  qed
qed

lemma handler_table_dom: "(handler_table i = None) = (i \<notin> set routed_intents)"
  by (simp add: handler_table_def routed_intents_def)

lemma routeIntent_table:
  "handler_table (intent d) = Some h \<Longrightarrow>
   routeIntent d b = h d (console_log (''[Router] Routing intent: '' @ intent d) b)"
  by (auto simp: handler_table_def routeIntent_def Let_def split: if_splits)

text \<open>
  C1, as amended. The router has a case for \<open>search\<close>, \<open>website_search\<close>, \<open>form_fill\<close>,
  \<open>book_ticket\<close>, \<open>open_site\<close>, \<open>qna\<close>, \<open>summarize\<close> and \<open>other\<close>. For every other
  intent \<open>routeIntent\<close> returns exactly \<open>{success: false, error: 'Unknown intent'}\<close>, after
  printing the warning and touching nothing else. For each of the eight it returns what
  the handler of that intent returns: that handler starts, as its line on the console
  shows, and no warning is printed.
\<close>

theorem routeIntent_dispatch:
  "(intent d \<notin> set routed_intents \<longrightarrow>
      handler_table (intent d) = None
      \<and> routeIntent d b =
        (Resolved \<lparr>success = False, message = None, error = Some ''Unknown intent'',
                    summary = None, tabId = None\<rparr>,
         b\<lparr>console := console b @ [ConsoleLog (''[Router] Routing intent: '' @ intent d),
                                    ConsoleWarn (''[Router] Unknown intent: '' @ intent d)]\<rparr>))
   \<and> (intent d \<in> set routed_intents \<longrightarrow>
        (\<exists>h. handler_table (intent d) = Some h
           \<and> routeIntent d b = h d (console_log (''[Router] Routing intent: '' @ intent d) b))
        \<and> started (intent d) b (snd (routeIntent d b)))"
proof -
  have "\<exists>h. handler_table (intent d) = Some h
           \<and> routeIntent d b = h d (console_log (''[Router] Routing intent: '' @ intent d) b)"
    if "intent d \<in> set routed_intents"
  proof -
    from that obtain h where "handler_table (intent d) = Some h"
      using handler_table_dom [of "intent d"] by auto
    then show ?thesis using routeIntent_table by blast
  qed
  then show ?thesis
    using routeIntent_started [of d b] handler_table_dom [of "intent d"] by blast
qed

theorem routeIntent_dispatch_witness:
  "intent dance_payload \<notin> set routed_intents
   \<and> fst (routeIntent dance_payload reader_browser) = Resolved (fail_result ''Unknown intent'')
   \<and> intent summarize_payload \<in> set routed_intents
   \<and> started ''summarize'' reader_browser (snd (routeIntent summarize_payload reader_browser))"
  using routeIntent_dispatch [of dance_payload reader_browser]
        routeIntent_dispatch [of summarize_payload reader_browser]
  by (simp add: dance_payload_def summarize_payload_def routed_intents_def fail_result_def)

text \<open>
  C1 as stated fails: \<open>summarize\<close> is not in the specification's list, yet it is routed to
  the page, whose summary comes back.
\<close>

theorem summarize_intent_counterexample:
  "intent summarize_payload \<notin> set spec_intents
   \<and> fst (routeIntent summarize_payload reader_browser)
       = Resolved \<lparr>success = True, message = Some ''Page content extracted'', error = None,
                   summary = Some [0x61, 0x20, 0x62], tabId = None\<rparr>
   \<and> fst (routeIntent summarize_payload reader_browser)
       \<noteq> Resolved \<lparr>success = False, message = None, error = Some ''Unknown intent'',
                   summary = None, tabId = None\<rparr>"
  by (simp add: summarize_payload_def spec_intents_def routeIntent_def handleSummarize_router_def
        sendToContent_def getUsableTab_def getActiveTab_def reader_browser_def reader_tab_def
        console_log_def onMessage_def run_handler_def handleSummarize_def spaced_page_def
        slice0_def trim_def js_space_def Let_def)

subsection \<open>Tab resolution\<close>

lemma find_filter: "List.find P xs = (case filter P xs of [] \<Rightarrow> None | x # _ \<Rightarrow> Some x)"
  by (induction xs) auto

lemma event_fired: "list_ex (\<lambda>(i, status). i = n \<and> status = s) xs = ((n, s) \<in> set xs)"
  by (induction xs) auto

lemma is_active_fold: "(\<lambda>t. active t \<and> currentWindow t) = is_active"
  by (simp add: is_active_def fun_eq_iff)

lemma usable_fold: "(\<lambda>t. \<not> startsWith (url t) ''chrome://'') = usable"
  by (simp add: usable_def fun_eq_iff)

lemma getActiveTab_seen:
  "seen_active b = t # ts \<Longrightarrow> getActiveTab b = Inr t"
  "seen_active b = [] \<Longrightarrow> \<exists>e. getActiveTab b = Inl e"
  unfolding getActiveTab_def seen_active_def is_active_fold
  by (auto split: option.splits list.splits if_splits)

lemma getAnyValidTab_seen:
  "seen_usable b = t # ts \<Longrightarrow> getAnyValidTab b = Inr t"
  "seen_usable b = [] \<Longrightarrow> \<exists>e. getAnyValidTab b = Inl e"
  unfolding getAnyValidTab_def seen_usable_def usable_fold find_filter
  by (auto split: option.splits list.splits if_splits)

text \<open>
  C2. \<open>getUsableTab\<close> returns the first active tab of the current window when the query
  reports one; otherwise the first open tab whose URL is not restricted; otherwise, with
  \<open>createIfMissing\<close>, it creates a tab at the default URL, makes it the active one, and
  returns it once the event that its load is complete has fired (it fails when the
  creation fails, and stays pending without that event); without \<open>createIfMissing\<close> it
  fails with \<open>No usable tab found\<close>. Unless a tab is created the browser is left as it
  was. In particular, when both queries answer, no tab is active and some tab is not
  restricted, \<open>getUsableTab(false)\<close> returns such a tab and creates none.
\<close>

theorem getUsableTab_order:
  "(seen_active b = t # ts \<longrightarrow> getUsableTab c b = (Resolved t, b))
   \<and> (seen_active b = [] \<and> seen_usable b = t # ts \<longrightarrow> getUsableTab c b = (Resolved t, b))
   \<and> (seen_active b = [] \<and> seen_usable b = [] \<and> \<not> c \<longrightarrow>
        getUsableTab c b = (Rejected ''No usable tab found'', b))
   \<and> (seen_active b = [] \<and> seen_usable b = [] \<and> c \<and> create_error b = Some e \<longrightarrow>
        fst (getUsableTab c b) = Rejected e \<and> tabs (snd (getUsableTab c b)) = tabs b)
   \<and> (seen_active b = [] \<and> seen_usable b = [] \<and> c \<and> create_error b = None \<longrightarrow>
        tabs (snd (getUsableTab c b))
          = map (\<lambda>x. if currentWindow x then x\<lparr>active := False\<rparr> else x) (tabs b)
            @ [new_tab b ''https://www.google.com'']
        \<and> fst (getUsableTab c b)
          = (if (next_tab_id b, ''complete'') \<in> set (updates b)
             then Resolved (new_tab b ''https://www.google.com'') else Pending))
   \<and> (active_query_error b = None \<and> all_query_error b = None
        \<and> (\<forall>x \<in> set (tabs b). \<not> is_active x) \<and> (\<exists>x \<in> set (tabs b). usable x) \<longrightarrow>
        (\<exists>x \<in> set (tabs b). usable x \<and> getUsableTab False b = (Resolved x, b)))"
proof -
  have c1: "seen_active b = t # ts \<longrightarrow> getUsableTab c b = (Resolved t, b)"
    using getActiveTab_seen(1) [of b t ts] by (simp add: getUsableTab_def)
  have c2: "seen_active b = [] \<and> seen_usable b = t # ts \<longrightarrow> getUsableTab c b = (Resolved t, b)"
  proof
    assume a: "seen_active b = [] \<and> seen_usable b = t # ts"
    then obtain e where "getActiveTab b = Inl e" using getActiveTab_seen(2) by blast
    moreover have "getAnyValidTab b = Inr t" using a getAnyValidTab_seen(1) by blast
    ultimately show "getUsableTab c b = (Resolved t, b)" by (simp add: getUsableTab_def)
  qed
  have fall: "\<exists>e1 e2. getActiveTab b = Inl e1 \<and> getAnyValidTab b = Inl e2"
    if "seen_active b = []" and "seen_usable b = []"
    using that getActiveTab_seen(2) getAnyValidTab_seen(2) by blast
  have c3: "seen_active b = [] \<and> seen_usable b = [] \<and> \<not> c \<longrightarrow>
        getUsableTab c b = (Rejected ''No usable tab found'', b)"
    using fall by (auto simp: getUsableTab_def)
  have c4: "seen_active b = [] \<and> seen_usable b = [] \<and> c \<and> create_error b = Some e \<longrightarrow>
        fst (getUsableTab c b) = Rejected e \<and> tabs (snd (getUsableTab c b)) = tabs b"
    using fall by (auto simp: getUsableTab_def createNewTab_def console_log_def)
  have c5: "seen_active b = [] \<and> seen_usable b = [] \<and> c \<and> create_error b = None \<longrightarrow>
        tabs (snd (getUsableTab c b))
          = map (\<lambda>x. if currentWindow x then x\<lparr>active := False\<rparr> else x) (tabs b)
            @ [new_tab b ''https://www.google.com'']
        \<and> fst (getUsableTab c b)
          = (if (next_tab_id b, ''complete'') \<in> set (updates b)
             then Resolved (new_tab b ''https://www.google.com'') else Pending)"
    using fall
    by (auto simp: getUsableTab_def createNewTab_def console_log_def Let_def new_tab_def
          default_url_def event_fired)
  have c6: "active_query_error b = None \<and> all_query_error b = None
        \<and> (\<forall>x \<in> set (tabs b). \<not> is_active x) \<and> (\<exists>x \<in> set (tabs b). usable x) \<longrightarrow>
        (\<exists>x \<in> set (tabs b). usable x \<and> getUsableTab False b = (Resolved x, b))"
  proof
    assume a: "active_query_error b = None \<and> all_query_error b = None
        \<and> (\<forall>x \<in> set (tabs b). \<not> is_active x) \<and> (\<exists>x \<in> set (tabs b). usable x)"
    then have sa: "seen_active b = []" by (simp add: seen_active_def)
    from a have "filter usable (tabs b) \<noteq> []" by (simp add: filter_empty_conv)
    then obtain x xs where su: "seen_usable b = x # xs"
      using a by (cases "filter usable (tabs b)") (auto simp: seen_usable_def)
    then have "x \<in> set (filter usable (tabs b))"
      using a by (simp add: seen_usable_def)
    then have x: "x \<in> set (tabs b)" "usable x" by auto
    obtain e where "getActiveTab b = Inl e" using sa getActiveTab_seen(2) by blast
    moreover have "getAnyValidTab b = Inr x" using su getAnyValidTab_seen(1) by blast
    ultimately have "getUsableTab False b = (Resolved x, b)" by (simp add: getUsableTab_def)
    with x show "\<exists>x \<in> set (tabs b). usable x \<and> getUsableTab False b = (Resolved x, b)" by blast
  qed
  show ?thesis by (intro conjI) (fact c1 c2 c3 c4 c5 c6)+
qed

theorem getUsableTab_order_witness:
  "seen_active settings_browser = [] \<and> seen_usable settings_browser = []
   \<and> getUsableTab False settings_browser = (Rejected ''No usable tab found'', settings_browser)
   \<and> fst (getUsableTab True settings_browser) = Resolved (new_tab settings_browser ''https://www.google.com'')
   \<and> filter is_active (tabs background_browser) = []
   \<and> filter usable (tabs background_browser) = [reader_tab\<lparr>active := False\<rparr>]
   \<and> getUsableTab False background_browser = (Resolved (reader_tab\<lparr>active := False\<rparr>), background_browser)
   \<and> getUsableTab False reader_browser = (Resolved reader_tab, reader_browser)"
  using getUsableTab_order [of background_browser "reader_tab\<lparr>active := False\<rparr>" "[]" False]
        getUsableTab_order [of reader_browser reader_tab "[]" False]
        getUsableTab_order [of settings_browser reader_tab "[]" False]
        getUsableTab_order [of settings_browser reader_tab "[]" True]
  by (simp add: background_browser_def reader_browser_def settings_browser_def seen_active_def
        seen_usable_def is_active_def usable_def startsWith_def reader_tab_def settings_tab_def)

subsection \<open>open_site\<close>

text \<open>
  What \<open>handleOpenSite\<close> does in general: it never hands a message to a tab; without a
  website it answers \<open>No website given\<close> and opens nothing; with one it opens a tab and,
  once that has loaded, answers with the new tab's id. The URL gets \<open>https://\<close> in front
  unless the text starts with \<open>http\<close>.
\<close>

lemma createNewTab_sent: "sent (snd (createNewTab u b)) = sent b"
  by (simp add: createNewTab_def Let_def split: option.splits)

lemma handleOpenSite_local:
  "sent (snd (handleOpenSite d b)) = sent b
   \<and> (falsy (website (entities d)) \<longrightarrow>
        handleOpenSite d b
          = (Resolved (fail_result ''No website given''), console_log ''[Router] OPEN SITE'' b))
   \<and> (website (entities d) = Some w \<and> w \<noteq> [] \<and> create_error b = None \<longrightarrow>
        tabs (snd (handleOpenSite d b))
          = map (\<lambda>x. if currentWindow x then x\<lparr>active := False\<rparr> else x) (tabs b)
            @ [new_tab b (if startsWith w ''http'' then w else ''https://'' @ w)]
        \<and> fst (handleOpenSite d b)
          = (if (next_tab_id b, ''complete'') \<in> set (updates b)
             then Resolved \<lparr>success = True, message = Some ''Website opened'', error = None,
                             summary = None, tabId = Some (next_tab_id b)\<rparr>
             else Pending))"
proof -
  have 1: "sent (snd (handleOpenSite d b)) = sent b"
    using createNewTab_sent [of _ "console_log ''[Router] OPEN SITE'' b"]
    by (auto simp: handleOpenSite_def Let_def console_log_def
          split: option.splits prod.splits promise.splits)
       (metis snd_conv)+
  have 2: "falsy (website (entities d)) \<longrightarrow>
        handleOpenSite d b
          = (Resolved (fail_result ''No website given''), console_log ''[Router] OPEN SITE'' b)"
    by (cases "website (entities d)") (simp_all add: handleOpenSite_def Let_def)
  have 3: "website (entities d) = Some w \<and> w \<noteq> [] \<and> create_error b = None \<longrightarrow>
        tabs (snd (handleOpenSite d b))
          = map (\<lambda>x. if currentWindow x then x\<lparr>active := False\<rparr> else x) (tabs b)
            @ [new_tab b (if startsWith w ''http'' then w else ''https://'' @ w)]
        \<and> fst (handleOpenSite d b)
          = (if (next_tab_id b, ''complete'') \<in> set (updates b)
             then Resolved \<lparr>success = True, message = Some ''Website opened'', error = None,
                             summary = None, tabId = Some (next_tab_id b)\<rparr>
             else Pending)"
    by (auto simp: handleOpenSite_def createNewTab_def console_log_def Let_def new_tab_def
          event_fired)
  from 1 2 3 show ?thesis by blast
qed

text \<open>
  C3. The claim asks for \<open>https://\<close> in front of every website without a scheme. The
  website \<open>httpbin.org\<close> has none, but it starts with \<open>http\<close>: the tab is opened at
  \<open>httpbin.org\<close> as it stands.
\<close>

theorem open_site_httpbin:
  "website (entities httpbin_payload) = Some ''httpbin.org''
   \<and> fst (routeIntent httpbin_payload reader_browser)
       = Resolved \<lparr>success = True, message = Some ''Website opened'', error = None,
                   summary = None, tabId = Some 8\<rparr>
   \<and> map (\<lambda>t. (tab_id t, url t)) (tabs (snd (routeIntent httpbin_payload reader_browser)))
       = [(7, ''https://example.com/''), (8, ''httpbin.org'')]"
  by (simp add: httpbin_payload_def no_entities_def routeIntent_def handleOpenSite_def
        createNewTab_def reader_browser_def reader_tab_def console_log_def startsWith_def Let_def)

section \<open>Properties of the UI controller\<close>

lemma trim_empty_iff: "(trim t = []) = list_all js_space t"
proof
  assume "trim t = []"
  then have all: "\<forall>x \<in> set (dropWhile js_space t). js_space x"
    by (simp add: trim_def dropWhile_eq_Nil_conv)
  have "dropWhile js_space t = []"
  proof (cases "dropWhile js_space t")
    case Nil
    then show ?thesis .
  next
    case (Cons x xs)
    then have "\<not> js_space x" using hd_dropWhile [of js_space t] by simp
    with all Cons show ?thesis by simp
  qed
  then show "list_all js_space t" by (simp add: dropWhile_eq_Nil_conv list_all_iff)
next
  assume "list_all js_space t"
  then have d: "dropWhile js_space t = []" by (simp add: dropWhile_eq_Nil_conv list_all_iff)
  show "trim t = []" unfolding trim_def d by simp
qed

lemma trim_Nil: "trim [] = []"
  by (simp add: trim_def)

lemma setUIState_fetches: "fetches (setUIState s p) = fetches p"
  by (simp add: setUIState_def updateMicLabel_def updateStatusDot_def updateStatusText_def Let_def
        split: option.splits)

lemma displayTranscript_fetches: "fetches (displayTranscript t f p) = fetches p"
  by (simp add: displayTranscript_def split: option.splits)

lemma displayResponse_fetches: "fetches (displayResponse t p) = fetches p"
  by (simp add: displayResponse_def split: option.splits)

lemma showError_fetches: "fetches (showError ty m f p) = fetches p"
  by (simp add: showError_def updateStatusText_def Let_def split: option.splits)

lemma processTranscript_fetches:
  "fetches (processTranscript t p) = fetches p @ (if blank t then [] else [process_request t])"
  by (auto simp: processTranscript_def blank_def trim_empty_iff [symmetric] setUIState_fetches
        process_request_def BACKEND_BASE_URL_def Let_def trim_Nil)

lemma resume_fetches: "fetches (processTranscript_resume out p) = fetches p"
  by (simp add: processTranscript_resume_def processing_failed_def setUIState_fetches
        displayResponse_fetches showError_fetches speakText_def sendToRouter_def Let_def
        split: fetch_outcome.splits option.splits)

text \<open>
  C9, as amended. A final transcript that is not blank makes exactly one backend call,
  \<open>POST http://localhost:3000/api/process\<close> with the body \<open>{text: transcript}\<close>; a blank
  final transcript and an interim transcript make none. An interim transcript changes
  only \<open>state.currentTranscript\<close> and the transcript display. The rest of
  \<open>processTranscript\<close>, run when the backend has answered, makes no further call.
\<close>

theorem transcript_backend_calls:
  "fetches (handleTranscript d p) =
     fetches p @ (if isFinal d \<and> \<not> blank (transcript d) then [process_request (transcript d)]
                  else [])
   \<and> (\<not> isFinal d \<longrightarrow>
        handleTranscript d p =
          p\<lparr>state := (state p)\<lparr>currentTranscript := transcript d\<rparr>,
            transcriptArea := map_option (\<lambda>_. TranscriptShown (transcript d) False)
                                (transcriptArea p)\<rparr>)
   \<and> fetches (processTranscript_resume out (handleTranscript d p)) = fetches (handleTranscript d p)"
proof -
  have 1: "fetches (handleTranscript d p) =
     fetches p @ (if isFinal d \<and> \<not> blank (transcript d) then [process_request (transcript d)]
                  else [])"
    by (simp add: handleTranscript_def processTranscript_fetches displayTranscript_fetches Let_def)
  have 2: "\<not> isFinal d \<longrightarrow>
        handleTranscript d p =
          p\<lparr>state := (state p)\<lparr>currentTranscript := transcript d\<rparr>,
            transcriptArea := map_option (\<lambda>_. TranscriptShown (transcript d) False)
                                (transcriptArea p)\<rparr>"
    by (cases "transcriptArea p") (simp_all add: handleTranscript_def displayTranscript_def Let_def)
  show ?thesis using 1 2 resume_fetches by blast
qed

theorem transcript_backend_calls_witness:
  "length (fetches (handleTranscript \<lparr>transcript = hello, isFinal = True\<rparr> idle_popup)) = 1
   \<and> fetches (handleTranscript \<lparr>transcript = hello, isFinal = False\<rparr> idle_popup) = []
   \<and> handleTranscript \<lparr>transcript = hello, isFinal = False\<rparr> idle_popup
       = idle_popup\<lparr>state := idle_state\<lparr>currentTranscript := hello\<rparr>,
                    transcriptArea := Some (TranscriptShown hello False)\<rparr>"
  using transcript_backend_calls [of "\<lparr>transcript = hello, isFinal = True\<rparr>" idle_popup]
        transcript_backend_calls [of "\<lparr>transcript = hello, isFinal = False\<rparr>" idle_popup]
  by (simp add: idle_popup_def hello_def blank_def js_space_def)

text \<open>C9 as stated fails: a final transcript made of one blank makes no backend call.\<close>

theorem blank_final_transcript_counterexample:
  "isFinal \<lparr>transcript = [0x20], isFinal = True\<rparr>
   \<and> length (fetches (handleTranscript \<lparr>transcript = [0x20], isFinal = True\<rparr> idle_popup)) = 0"
  by (simp add: handleTranscript_def processTranscript_def displayTranscript_def idle_popup_def
        trim_def js_space_def Let_def)

text \<open>
  C10. \<open>getState()\<close> returns a new object with the properties of \<open>state\<close>: its address
  was not in use before, every object of the store, \<open>state\<close> included, is as it was, and
  whatever is then written to the returned object (a property set, a property deleted,
  the whole object replaced) leaves \<open>state\<close> as it was.
\<close>

theorem getState_copy:
  "deref h st = Some s \<Longrightarrow>
   (\<exists>a h'. getState st h = Some (a, h')
      \<and> a \<noteq> st \<and> deref h a = None \<and> deref h' a = Some s
      \<and> (\<forall>i. i < length h \<longrightarrow> deref h' i = deref h i)
      \<and> (\<forall>k v. deref (assign a k v h') st = Some s)
      \<and> (\<forall>k. deref (delete_property a k h') st = Some s)
      \<and> (\<forall>obj. deref (h'[a := obj]) st = Some s))"
  by (auto simp: getState_def deref_def assign_def delete_property_def nth_append
        split: if_splits)

theorem getState_copy_witness:
  "deref sample_heap 0 = Some (sample_heap ! 0)
   \<and> (\<exists>h'. getState 0 sample_heap = Some (1, h')
         \<and> deref (assign 1 ''isListening'' (JBool True) h') 0 = Some (sample_heap ! 0)
         \<and> deref (assign 1 ''isListening'' (JBool True) h') 1
             = Some [(''isListening'', JBool True), (''currentTranscript'', JString []),
                     (''sessionStartTime'', JNull)])"
  using getState_copy [of sample_heap 0 "sample_heap ! 0"]
  by (auto simp: sample_heap_def deref_def getState_def assign_def)

end
